theory Spec2Isabelle
  imports Main "HOL-Library.AList"
begin

section \<open>Values of the JavaScript program\<close>

text \<open>
  The development embeds the login server (\<^verbatim>\<open>server.js\<close>, the first program of
  \<^verbatim>\<open>src/unnamed/part_000\<close>) and its helper module \<^verbatim>\<open>src/helpers.js\<close>.
  JavaScript strings are HOL strings. Accented letters and emoji in selector texts and
  messages are written with their plain ASCII letters (\<^verbatim>\<open>codigo\<close> for the Spanish word),
  which keeps all selectors distinct. A thrown value is an \<open>exn\<close>; a computation that may
  throw returns \<open>exn + 'a\<close> with \<open>Inl\<close> for the thrown value.
\<close>

datatype exn = Error string | TypeError string | ReferenceError string

fun message :: "exn \<Rightarrow> string" where
  "message (Error m) = m"
| "message (TypeError m) = m"
| "message (ReferenceError m) = m"

text \<open>\<^verbatim>\<open>s.startsWith(p)\<close> and \<^verbatim>\<open>s.includes(sub)\<close>.\<close>

fun startsWith :: "string \<Rightarrow> string \<Rightarrow> bool" where
  "startsWith s [] = True"
| "startsWith [] (p # ps) = False"
| "startsWith (c # cs) (p # ps) = (c = p \<and> startsWith cs ps)"

fun str_includes :: "string \<Rightarrow> string \<Rightarrow> bool" where
  "str_includes [] sub = (sub = [])"
| "str_includes (c # cs) sub = (startsWith (c # cs) sub \<or> str_includes cs sub)"

text \<open>\<^verbatim>\<open>s.split(':')\<close>: the pieces between the separators, at least one piece.\<close>

fun split_on :: "char \<Rightarrow> string \<Rightarrow> string list" where
  "split_on sep [] = [[]]"
| "split_on sep (c # cs) =
     (if c = sep then [] # split_on sep cs
      else (case split_on sep cs of
              [] \<Rightarrow> [[c]]
            | piece # pieces \<Rightarrow> (c # piece) # pieces))"

text \<open>\<^verbatim>\<open>parts[i]\<close>: \<^verbatim>\<open>undefined\<close> outside the array.\<close>

fun index :: "'a list \<Rightarrow> nat \<Rightarrow> 'a option" where
  "index [] i = None"
| "index (x # xs) 0 = Some x"
| "index (x # xs) (Suc i) = index xs i"

text \<open>The decimal text of a non-negative integer, as a template literal prints a number.\<close>

definition digit :: "nat \<Rightarrow> char" where
  "digit d =
     (if d = 0 then CHR ''0'' else if d = 1 then CHR ''1'' else if d = 2 then CHR ''2''
      else if d = 3 then CHR ''3'' else if d = 4 then CHR ''4'' else if d = 5 then CHR ''5''
      else if d = 6 then CHR ''6'' else if d = 7 then CHR ''7'' else if d = 8 then CHR ''8''
      else CHR ''9'')"

function show_nat :: "nat \<Rightarrow> string" where
  "show_nat n = (if n < 10 then [digit n] else show_nat (n div 10) @ [digit (n mod 10)])"
  by pat_completeness auto
termination
  by (relation "measure id") auto

declare show_nat.simps [simp del]

section \<open>The sanitizing transform and the derived names\<close>

text \<open>
  Every derived name is built from \<^verbatim>\<open>email.replace(/[@.]/g, '_')\<close>: each \<^verbatim>\<open>@\<close> and
  each \<^verbatim>\<open>.\<close> becomes \<^verbatim>\<open>_\<close>, every other character stays. Files are named inside
  the cookies directory and cache directories inside the cache directory; a path is
  modelled by the name that the code hands to \<^verbatim>\<open>path.join\<close> as its last argument.
  Equal names are equal paths. \<^verbatim>\<open>path.join\<close> may send further names to one path (a
  leading separator is dropped), so nothing below relies on different names being
  different paths.
\<close>

definition special :: "char \<Rightarrow> bool" where
  "special c = (c = CHR ''@'' \<or> c = CHR ''.'')"

definition sanitize :: "string \<Rightarrow> string" where
  "sanitize email = map (\<lambda>c. if special c then CHR ''_'' else c) email"

definition cookieFile :: "string \<Rightarrow> string" where
  "cookieFile email = sanitize email @ ''_cookies.json''"

definition sessionFile :: "string \<Rightarrow> string" where
  "sessionFile email = sanitize email @ ''_session.json''"

text \<open>The cache directory of \<^verbatim>\<open>createPersistentContext\<close> and of a successful full login.\<close>

definition cacheDirName :: "string \<Rightarrow> string \<Rightarrow> string" where
  "cacheDirName email version = sanitize email @ ''_'' @ version"

text \<open>
  The way back that the listings take: \<^verbatim>\<open>emailKey.replace(/_/g, '@')\<close> for a cookie
  or session file without stored email (line 922) and
  \<^verbatim>\<open>dirent.name.replace(/_/g, '@')\<close> for a cache directory (line 1034).
\<close>

definition restore_email :: "string \<Rightarrow> string" where
  "restore_email name = map (\<lambda>c. if c = CHR ''_'' then CHR ''@'' else c) name"

text \<open>The characters that the transform sends to the underscore.\<close>

definition underscored :: "char \<Rightarrow> bool" where
  "underscored c = (special c \<or> c = CHR ''_'')"

text \<open>Two identities agree up to the transform: same length, and position by position
  the same character or two characters that both become an underscore.\<close>

definition same_shape :: "string \<Rightarrow> string \<Rightarrow> bool" where
  "same_shape a b = list_all2 (\<lambda>x y. x = y \<or> (underscored x \<and> underscored y)) a b"

section \<open>Page snapshots and the two classifiers of helpers.js\<close>

text \<open>
  A page snapshot answers the four questions the classifiers ask of a Playwright page:
  its URL, its title, whether a selector is visible, and how many elements a selector
  matches. Each answer may be a thrown error.
\<close>

record page =
  pg_url :: "exn + string"
  pg_title :: "exn + string"
  pg_isVisible :: "string \<Rightarrow> exn + bool"
  pg_count :: "string \<Rightarrow> exn + nat"

text \<open>
  The probing loop shared by both classifiers:
  \<^verbatim>\<open>for (const s of list) { try { if (await page.locator(s).isVisible(..)) return ..; } catch (e) { continue; } }\<close>.
  It yields whether some selector was seen visible; a probe that throws is skipped.
\<close>

fun probe_visible :: "page \<Rightarrow> string list \<Rightarrow> bool" where
  "probe_visible p [] = False"
| "probe_visible p (s # ss) =
     (case pg_isVisible p s of
        Inl e \<Rightarrow> probe_visible p ss
      | Inr visible \<Rightarrow> (if visible then True else probe_visible p ss))"

text \<open>\<^verbatim>\<open>for (const u of list) { if (currentUrl.includes(u)) return true; }\<close>\<close>

fun url_matches :: "string \<Rightarrow> string list \<Rightarrow> bool" where
  "url_matches currentUrl [] = False"
| "url_matches currentUrl (u # us) = (if str_includes currentUrl u then True else url_matches currentUrl us)"

text \<open>The indicator list of \<^verbatim>\<open>checkFor2FA\<close> (helpers.js, lines 742 to 811).\<close>

definition twoFAIndicators :: "string list" where
  \<open>twoFAIndicators =
   [''input[placeholder*="codigo" i]'',
    ''input[placeholder*="code" i]'',
    ''input[name="approvals_code"]'',
    ''input[id="approvals_code"]'',
    ''input[data-testid="2fa_code"]'',
    ''input[inputmode="numeric"]'',
    ''input[aria-label*="codigo" i]'',
    ''input[aria-label*="Codigo" i]'',
    ''input[type="text"][maxlength="6"]'',
    ''input[autocomplete="one-time-code"]'',
    ''text=Ve a tu app de autenticacion'',
    ''text=Ingresa el codigo de 6 digitos para esta cuenta'',
    ''text=desde la app de autenticacion en dos pasos que configuraste'',
    ''text=app de autenticacion'',
    ''text=Duo Mobile'',
    ''text=Google Authenticator'',
    ''text=Confia en este dispositivo y omite este paso'',
    '':text("Ve a tu app")'',
    '':text("codigo de 6 digitos")'',
    '':text("app de autenticacion")'',
    '':text("Ingresa el codigo")'',
    '':text("dos pasos")'',
    '':text("autenticacion en dos")'',
    ''text=codigo de'',
    ''text=codigo de verificacion'',
    ''text=autenticacion de dos factores'',
    ''text=Ingresa el codigo de 6 digitos'',
    ''text=Revisa tu dispositivo de autenticacion'',
    ''text=Codigo de seguridad'',
    ''text=Codigo'',
    ''text=authentication code'',
    ''text=two-factor'',
    ''text=verificacion'',
    ''text=verification'',
    ''text=Enter the 6-digit code'',
    ''text=Check your authentication device'',
    ''text=Security code'',
    ''text=Two-Factor Authentication'',
    ''text=Go to your authentication app'',
    ''[data-testid="2fa-form"]'',
    ''[role="dialog"]:has-text("codigo")'',
    ''[role="dialog"]:has-text("code")'',
    ''form:has-text("codigo de verificacion")'',
    ''form:has-text("authentication code")'',
    ''button:has-text("Continuar")'',
    ''div[role="button"]:has-text("Continuar")'',
    ''button:has-text("Continue")'',
    ''div[role="button"]:has-text("Continue")'',
    ''button:has-text("Usar otro metodo")'',
    ''div[role="button"]:has-text("Usar otro metodo")'',
    ''div:has-text("Ve a tu app de autenticacion")'',
    ''div:has-text("Ingresa el codigo de 6 digitos")'',
    ''form:has-text("codigo de 6 digitos")'']\<close>

definition twoFAUrlPatterns :: "string list" where
  "twoFAUrlPatterns =
   [''checkpoint'', ''two_factor'', ''approvals'', ''security'', ''verify'', ''auth-app'',
    ''authentication'', ''confirm'', ''mfa'', ''otp'', ''factor'']"

text \<open>
  The \<^verbatim>\<open>try\<close> block of \<^verbatim>\<open>checkFor2FA\<close>: the URL and the title are read for the log
  lines, the indicators are probed, then the URL is read again and matched.
\<close>

definition checkFor2FA_try :: "page \<Rightarrow> exn + bool" where
  "checkFor2FA_try p =
     (case pg_url p of
        Inl e \<Rightarrow> Inl e
      | Inr logged_url \<Rightarrow>
          (case pg_title p of
             Inl e \<Rightarrow> Inl e
           | Inr logged_title \<Rightarrow>
               (if probe_visible p twoFAIndicators then Inr True
                else (case pg_url p of
                        Inl e \<Rightarrow> Inl e
                      | Inr currentUrl \<Rightarrow> Inr (url_matches currentUrl twoFAUrlPatterns)))))"

text \<open>\<^verbatim>\<open>checkFor2FA\<close>: the block above; \<^verbatim>\<open>catch (error) { ...; return false; }\<close>.\<close>

definition checkFor2FA :: "page \<Rightarrow> exn + bool" where
  "checkFor2FA p =
     (case checkFor2FA_try p of
        Inl error \<Rightarrow> Inr False
      | Inr answer \<Rightarrow> Inr answer)"

text \<open>The indicator list inside \<^verbatim>\<open>checkLoginSuccess\<close> (helpers.js, lines 622 to 663).\<close>

definition successTwoFAIndicators :: "string list" where
  \<open>successTwoFAIndicators =
   [''input[placeholder*="codigo" i]'',
    ''input[placeholder*="code" i]'',
    ''input[name="approvals_code"]'',
    ''input[id="approvals_code"]'',
    ''input[data-testid="2fa_code"]'',
    ''input[inputmode="numeric"]'',
    ''input[aria-label*="codigo" i]'',
    ''input[aria-label*="Codigo" i]'',
    ''input[type="text"][maxlength="6"]'',
    ''input[autocomplete="one-time-code"]'',
    ''text=Ve a tu app de autenticacion'',
    ''text=Ingresa el codigo de 6 digitos para esta cuenta'',
    ''text=desde la app de autenticacion en dos pasos que configuraste'',
    ''text=app de autenticacion'',
    ''text=Duo Mobile'',
    ''text=Google Authenticator'',
    ''text=Confia en este dispositivo y omite este paso'',
    '':text("Ve a tu app")'',
    '':text("codigo de 6 digitos")'',
    '':text("app de autenticacion")'',
    '':text("Ingresa el codigo")'',
    '':text("dos pasos")'',
    '':text("autenticacion en dos")'',
    ''text=codigo de verificacion'',
    ''text=authentication code'',
    ''text=two-factor'',
    ''text=verificacion'',
    ''text=verification'',
    ''div:has-text("Ve a tu app de autenticacion")'',
    ''div:has-text("Ingresa el codigo de 6 digitos")'',
    ''form:has-text("codigo de 6 digitos")'']\<close>

definition successUrls :: "string list" where
  "successUrls =
   [''home.php'', ''/?'', ''/feed'', ''/home'', ''facebook.com/?sk=h_chr'',
    ''facebook.com/?ref=tn_tnmn'']"

definition successIndicators :: "string list" where
  \<open>successIndicators =
   [''[data-testid="search"]'', ''[aria-label="Facebook"]'', ''div[role="main"]'',
    ''[data-testid="blue_bar"]'']\<close>

definition loginFieldsSelector :: string where
  \<open>loginFieldsSelector = ''input[name="email"], input[type="password"]''\<close>

text \<open>
  \<^verbatim>\<open>checkLoginSuccess\<close>: the URL is read outside any \<^verbatim>\<open>try\<close>; the embedded
  second-factor probe answers \<^verbatim>\<open>false\<close>; then the success URLs; then, inside a
  \<^verbatim>\<open>try\<close> whose handler only logs, the count of login fields and the success
  indicators; at the end \<^verbatim>\<open>false\<close>.
\<close>

definition checkLoginSuccess :: "page \<Rightarrow> exn + bool" where
  "checkLoginSuccess p =
     (case pg_url p of
        Inl e \<Rightarrow> Inl e
      | Inr currentUrl \<Rightarrow>
          (if probe_visible p successTwoFAIndicators then Inr False
           else if url_matches currentUrl successUrls then Inr True
           else (case pg_count p loginFieldsSelector of
                   Inl e \<Rightarrow> Inr False
                 | Inr loginFields \<Rightarrow>
                     (if loginFields = 0 then Inr True
                      else if probe_visible p successIndicators then Inr True
                      else Inr False))))"

text \<open>A checkpoint page that shows none of the probed elements and no login field.\<close>

definition checkpoint_page :: page where
  "checkpoint_page =
     \<lparr>pg_url = Inr ''https://www.facebook.com/checkpoint/?next'',
      pg_title = Inr ''Facebook'',
      pg_isVisible = (\<lambda>selector. Inr False),
      pg_count = (\<lambda>selector. Inr 0)\<rparr>"

text \<open>A page whose title cannot be read.\<close>

definition broken_title_page :: page where
  "broken_title_page =
     \<lparr>pg_url = Inr ''https://m.facebook.com/'',
      pg_title = Inl (Error ''Execution context was destroyed''),
      pg_isVisible = (\<lambda>selector. Inr True),
      pg_count = (\<lambda>selector. Inr 0)\<rparr>"

section \<open>The artifact store, the registries and the browser\<close>

text \<open>
  A cookie file holds \<^verbatim>\<open>{email, timestamp, cookies, ..}\<close> and a session file holds
  \<^verbatim>\<open>{email, timestamp, url, title, localStorage, sessionStorage}\<close>; timestamps are
  milliseconds since the epoch, the unit of \<^verbatim>\<open>Date.now()\<close>. \<open>Unparsable\<close> is a file on
  which \<^verbatim>\<open>JSON.parse\<close> throws. The user agent and the viewport stored beside the cookies
  are left out.
\<close>

type_synonym cookie = string

record cookieData =
  cd_email :: string
  cd_timestamp :: int
  cd_cookies :: "cookie list"

record pageState =
  ps_url :: string
  ps_title :: string
  ps_localStorage :: "(string \<times> string) list"
  ps_sessionStorage :: "(string \<times> string) list"

record sessionState =
  ss_email :: string
  ss_timestamp :: int
  ss_page :: pageState

datatype stored = CookieJson cookieData | SessionJson sessionState | Unparsable

fun file_timestamp :: "stored \<Rightarrow> int option" where
  "file_timestamp (CookieJson c) = Some (cd_timestamp c)"
| "file_timestamp (SessionJson s) = Some (ss_timestamp s)"
| "file_timestamp Unparsable = None"

text \<open>
  An entry of \<^verbatim>\<open>activeSessions\<close>. The browser, context and page objects are handles;
  the handle of everything launched for a session is its session id. \<open>s_browser\<close> is
  \<open>None\<close> when the stored \<^verbatim>\<open>browser\<close> is \<^verbatim>\<open>null\<close>.
\<close>

record session =
  s_browser :: "string option"
  s_context :: string
  s_page :: string
  s_email :: string
  s_password :: "string option"
  s_cacheDir :: "string option"
  s_version :: string
  s_createdAt :: int
  s_quickLogin :: bool

text \<open>
  The results of the login functions: \<^verbatim>\<open>{success, sessionId, message, error, version,
  requires2FA, attempts}\<close>; an absent property is \<open>None\<close> (\<open>False\<close> for the flag). The
  display flags \<^verbatim>\<open>usedSavedData\<close> and \<^verbatim>\<open>quickLogin\<close> are left out.
\<close>

record login_result =
  success :: bool
  sessionId :: "string option"
  msg :: string
  err :: "string option"
  version_of :: "string option"
  requires2FA :: bool
  attempts :: "(string \<times> string) option"

text \<open>
  The \<^verbatim>\<open>resolve\<close> and \<^verbatim>\<open>reject\<close> stored in an entry of \<^verbatim>\<open>pending2FASessions\<close> are
  \<^verbatim>\<open>null\<close> (\<open>None\<close>) or the settling functions of the login promise parked for a
  session id.
\<close>

datatype resolver = Resolver string

datatype rejecter = Rejecter string

record pending =
  p_page :: string
  p_email :: string
  p_version :: string
  p_timestamp :: int
  p_resolve :: "resolver option"
  p_reject :: "rejecter option"

text \<open>
  What the server code itself does, in order: launching and closing a browser, its own
  fixed and random waits, the click on the submit control, and each classification with
  its answer. Waits inside the helper functions are not recorded.
\<close>

datatype event =
    Launched string
  | Closed string
  | Slept nat
  | SleptBetween nat nat
  | Clicked
  | Checked2FA bool
  | CheckedSuccess bool

text \<open>
  The state of the process and of its directories: the clock read by \<^verbatim>\<open>Date.now()\<close>,
  the files of the cookies directory by name, the directory names inside the cache
  directory, the two registries in insertion order, the handles of the browser processes
  that are running, the armed second-factor timers (due time and session id), the
  parked login promises that have been settled, and the trace of events. The clock
  stands still while one call is handled; it moves between calls, by \<open>advance_clock\<close>
  below.
\<close>

record world =
  w_clock :: int
  w_files :: "string \<rightharpoonup> stored"
  w_cacheDirs :: "string list"
  activeSessions :: "(string \<times> session) list"
  pending2FASessions :: "(string \<times> pending) list"
  w_open :: "string list"
  w_timers :: "(int \<times> string) list"
  w_settled :: "(string \<times> (exn + login_result)) list"
  w_trace :: "event list"

text \<open>
  The browser and the site are outside the program. What they answer during one
  operation is an input: which browser calls throw, whether the probing helpers
  (\<^verbatim>\<open>findElement\<close>, \<^verbatim>\<open>waitForLoginButton\<close>, the field and button searches of the
  second-factor route) find their element, the page seen by each classification, and
  what \<^verbatim>\<open>saveCookies\<close> and \<^verbatim>\<open>saveSessionState\<close> read from the browser. Helper calls
  that catch their own errors and leave the state of the process alone (the debug
  snapshots, the console output, \<^verbatim>\<open>restoreSessionState\<close>, \<^verbatim>\<open>handleSaveLoginDialog\<close>)
  do not appear.
\<close>

datatype step =
    Launching | Navigating | Selecting | TypingEmail | TypingPassword | WaitingButton
  | Clicking | TypingCode | Closing

record env =
  throws :: "step \<Rightarrow> exn option"
  context_browser :: bool
  emailField :: bool
  passwordField :: bool
  loginButton :: bool
  codeInput :: bool
  submitButton :: bool
  page_2fa :: "nat \<Rightarrow> page"
  page_success :: page
  context_cookies :: "exn + cookie list"
  page_state :: "exn + pageState"

text \<open>Sequencing of steps that may throw, and \<^verbatim>\<open>try { .. } catch (e) { .. }\<close>.\<close>

type_synonym 'a prog = "world \<Rightarrow> (exn + 'a) \<times> world"

definition ok :: "'a \<Rightarrow> 'a prog" where
  "ok a w = (Inr a, w)"

definition throw :: "exn \<Rightarrow> 'a prog" where
  "throw e w = (Inl e, w)"

definition seq :: "'a prog \<Rightarrow> ('a \<Rightarrow> 'b prog) \<Rightarrow> 'b prog" where
  "seq m f w = (case m w of (Inl e, w') \<Rightarrow> (Inl e, w') | (Inr a, w') \<Rightarrow> f a w')"

definition try_catch :: "'a prog \<Rightarrow> (exn \<Rightarrow> 'a prog) \<Rightarrow> 'a prog" where
  "try_catch m handler w = (case m w of (Inl e, w') \<Rightarrow> handler e w' | (Inr a, w') \<Rightarrow> (Inr a, w'))"

definition emit :: "event \<Rightarrow> unit prog" where
  "emit ev w = (Inr (), w\<lparr>w_trace := w_trace w @ [ev]\<rparr>)"

definition browser_call :: "env \<Rightarrow> step \<Rightarrow> unit prog" where
  "browser_call e s w = (case throws e s of None \<Rightarrow> (Inr (), w) | Some x \<Rightarrow> (Inl x, w))"

definition sleep :: "nat \<Rightarrow> unit prog" where
  "sleep ms = emit (Slept ms)"

text \<open>\<^verbatim>\<open>await sleep(randomDelay(lo, hi))\<close>: a wait of some length between the bounds.\<close>

definition sleep_random :: "nat \<Rightarrow> nat \<Rightarrow> unit prog" where
  "sleep_random lo hi = emit (SleptBetween lo hi)"

text \<open>The two classifiers applied to the page that the site shows at that moment.\<close>

definition classify2FA :: "page \<Rightarrow> bool prog" where
  "classify2FA p w =
     (case checkFor2FA p of
        Inl e \<Rightarrow> (Inl e, w)
      | Inr b \<Rightarrow> (Inr b, w\<lparr>w_trace := w_trace w @ [Checked2FA b]\<rparr>))"

definition classifySuccess :: "page \<Rightarrow> bool prog" where
  "classifySuccess p w =
     (case checkLoginSuccess p of
        Inl e \<Rightarrow> (Inl e, w)
      | Inr b \<Rightarrow> (Inr b, w\<lparr>w_trace := w_trace w @ [CheckedSuccess b]\<rparr>))"

subsection \<open>helpers.js: loadCookies, saveCookies, saveSessionState\<close>

definition maxAge :: int where
  "maxAge = 7 * 24 * 60 * 60 * 1000"

text \<open>
  \<^verbatim>\<open>loadCookies\<close>: \<^verbatim>\<open>null\<close> when the file is missing, when reading it throws, and
  when \<^verbatim>\<open>cookieAge > maxAge\<close>; otherwise the parsed file.
\<close>

definition loadCookies :: "string \<Rightarrow> world \<Rightarrow> stored option" where
  "loadCookies email w =
     (case w_files w (cookieFile email) of
        None \<Rightarrow> None
      | Some f \<Rightarrow>
          (case file_timestamp f of
             None \<Rightarrow> None
           | Some timestamp \<Rightarrow>
               (if w_clock w - timestamp > maxAge then None else Some f)))"

text \<open>
  \<^verbatim>\<open>saveCookies\<close>: reads the cookies of the context and writes the cookie file; any
  throw inside is caught and nothing is written.
\<close>

definition saveCookies :: "env \<Rightarrow> string \<Rightarrow> world \<Rightarrow> world" where
  "saveCookies e email w =
     (case context_cookies e of
        Inl error \<Rightarrow> w
      | Inr cookies \<Rightarrow>
          w\<lparr>w_files := (w_files w)(cookieFile email \<mapsto>
               CookieJson \<lparr>cd_email = email, cd_timestamp = w_clock w, cd_cookies = cookies\<rparr>)\<rparr>)"

text \<open>
  \<^verbatim>\<open>saveSessionState\<close>: calls \<^verbatim>\<open>saveCookies\<close>, reads the page and writes the session
  file; a throw while reading the page is caught and the session file is not written.
\<close>

definition saveSessionState :: "env \<Rightarrow> string \<Rightarrow> world \<Rightarrow> world" where
  "saveSessionState e email w =
     (let w1 = saveCookies e email w in
      case page_state e of
        Inl error \<Rightarrow> w1
      | Inr st \<Rightarrow>
          w1\<lparr>w_files := (w_files w1)(sessionFile email \<mapsto>
               SessionJson \<lparr>ss_email = email, ss_timestamp = w_clock w1, ss_page = st\<rparr>)\<rparr>)"

definition save_both :: "env \<Rightarrow> string \<Rightarrow> unit prog" where
  "save_both e email w = (Inr (), saveSessionState e email (saveCookies e email w))"

subsection \<open>Registry and directory updates\<close>

definition mkdir_cache :: "string \<Rightarrow> world \<Rightarrow> world" where
  "mkdir_cache name w =
     (if name \<in> set (w_cacheDirs w) then w else w\<lparr>w_cacheDirs := w_cacheDirs w @ [name]\<rparr>)"

definition set_session :: "string \<Rightarrow> session \<Rightarrow> unit prog" where
  "set_session sid s w = (Inr (), w\<lparr>activeSessions := AList.update sid s (activeSessions w)\<rparr>)"

definition delete_session :: "string \<Rightarrow> unit prog" where
  "delete_session sid w = (Inr (), w\<lparr>activeSessions := AList.delete sid (activeSessions w)\<rparr>)"

definition set_pending :: "string \<Rightarrow> pending \<Rightarrow> unit prog" where
  "set_pending sid p w =
     (Inr (), w\<lparr>pending2FASessions := AList.update sid p (pending2FASessions w)\<rparr>)"

definition delete_pending :: "string \<Rightarrow> unit prog" where
  "delete_pending sid w =
     (Inr (), w\<lparr>pending2FASessions := AList.delete sid (pending2FASessions w)\<rparr>)"

text \<open>\<^verbatim>\<open>await browser.close()\<close> on a handle, and on a stored \<^verbatim>\<open>browser\<close> that may be
  \<^verbatim>\<open>null\<close>.\<close>

definition close_handle :: "env \<Rightarrow> string \<Rightarrow> unit prog" where
  "close_handle e h =
     seq (browser_call e Closing)
         (\<lambda>u w. (Inr (), w\<lparr>w_open := removeAll h (w_open w), w_trace := w_trace w @ [Closed h]\<rparr>))"

definition close_browser :: "env \<Rightarrow> string option \<Rightarrow> unit prog" where
  "close_browser e b =
     (case b of
        None \<Rightarrow> throw (TypeError ''Cannot read properties of null (reading close)'')
      | Some h \<Rightarrow> close_handle e h)"

text \<open>Calling a stored \<^verbatim>\<open>resolve\<close> or \<^verbatim>\<open>reject\<close>: calling \<^verbatim>\<open>null\<close> throws a
  \<^verbatim>\<open>TypeError\<close>; a settling function settles its parked login promise.\<close>

definition call_resolve :: "string \<Rightarrow> resolver option \<Rightarrow> login_result \<Rightarrow> unit prog" where
  "call_resolve expr f r w =
     (case f of
        None \<Rightarrow> (Inl (TypeError (expr @ '' is not a function'')), w)
      | Some (Resolver sid) \<Rightarrow> (Inr (), w\<lparr>w_settled := w_settled w @ [(sid, Inr r)]\<rparr>))"

definition call_reject :: "string \<Rightarrow> rejecter option \<Rightarrow> exn \<Rightarrow> unit prog" where
  "call_reject expr f x w =
     (case f of
        None \<Rightarrow> (Inl (TypeError (expr @ '' is not a function'')), w)
      | Some (Rejecter sid) \<Rightarrow> (Inr (), w\<lparr>w_settled := w_settled w @ [(sid, Inl x)]\<rparr>))"

section \<open>One login attempt: attemptLoginWithVersion\<close>

definition show_int :: "int \<Rightarrow> string" where
  "show_int i = (if i < 0 then CHR ''-'' # show_nat (nat (- i)) else show_nat (nat i))"

text \<open>\<^verbatim>\<open>`${quickLogin ? 'quick-' : ''}${email.replace(/[@.]/g, '_')}-${version}-${Date.now()}`\<close>\<close>

definition sessionIdFor :: "bool \<Rightarrow> string \<Rightarrow> string \<Rightarrow> int \<Rightarrow> string" where
  "sessionIdFor quickLogin email version now =
     (if quickLogin then ''quick-'' else []) @ sanitize email @ ''-'' @ version @ ''-'' @ show_int now"

definition no_cookies_result :: "string \<Rightarrow> string \<Rightarrow> login_result" where
  "no_cookies_result email version =
     \<lparr>success = False, sessionId = None,
      msg = ''No hay cookies guardadas para '' @ email @ ''. Usa login normal primero.'',
      err = Some ''NO_COOKIES'', version_of = Some version, requires2FA = False,
      attempts = None\<rparr>"

definition quick_failed_result :: "string \<Rightarrow> string \<Rightarrow> login_result" where
  "quick_failed_result email version =
     \<lparr>success = False, sessionId = None,
      msg = ''Quick login '' @ version @ '' fallo para '' @ email @
            ''. Las cookies pueden haber expirado.'',
      err = Some ''QUICK_LOGIN_FAILED'', version_of = Some version, requires2FA = False,
      attempts = None\<rparr>"

definition quick_success_result :: "string \<Rightarrow> string \<Rightarrow> login_result" where
  "quick_success_result sid version =
     \<lparr>success = True, sessionId = Some sid,
      msg = ''Login exitoso usando cookies + cache '' @ version @ ''! Pagina permanece abierta.'',
      err = None, version_of = Some version, requires2FA = False, attempts = None\<rparr>"

definition login_success_result :: "string \<Rightarrow> string \<Rightarrow> login_result" where
  "login_success_result sid version =
     \<lparr>success = True, sessionId = Some sid,
      msg = ''Login '' @ version @
            '' exitoso con credenciales! Cookies + cache guardados. Pagina permanece abierta.'',
      err = None, version_of = Some version, requires2FA = False, attempts = None\<rparr>"

definition failure_result :: "string \<Rightarrow> exn \<Rightarrow> login_result" where
  "failure_result version error =
     \<lparr>success = False, sessionId = None,
      msg = ''Error '' @ version @ '': '' @ message error,
      err = Some (message error), version_of = Some version, requires2FA = False,
      attempts = None\<rparr>"

text \<open>
  \<^verbatim>\<open>createPersistentContext\<close>: loads the cookies, makes the cache directory of the
  identity and version when it is missing, launches the persistent context on it and
  takes \<^verbatim>\<open>context.browser()\<close>. The result is the browser, the loaded cookies and the
  cache directory.
\<close>

definition createPersistentContext ::
  "env \<Rightarrow> string \<Rightarrow> string \<Rightarrow> string \<Rightarrow> (string option \<times> stored option \<times> string option) prog" where
  "createPersistentContext e sid email version w =
     (let savedCookies = loadCookies email w;
          cacheDir = cacheDirName email version;
          w1 = mkdir_cache cacheDir w
      in seq (emit (Launched sid)) (\<lambda>u.
         seq (browser_call e Launching) (\<lambda>u w2.
           (Inr (if context_browser e then Some sid else None, savedCookies, Some cacheDir),
            w2\<lparr>w_open := w_open w2 @ [sid]\<rparr>))) w1)"

text \<open>The fresh context of a full login: \<^verbatim>\<open>chromium.launch\<close>, a new context and a new
  page; no saved cookies and no cache directory.\<close>

definition launch_fresh ::
  "env \<Rightarrow> string \<Rightarrow> (string option \<times> stored option \<times> string option) prog" where
  "launch_fresh e sid =
     seq (emit (Launched sid)) (\<lambda>u.
     seq (browser_call e Launching) (\<lambda>u w.
       (Inr (Some sid, None, None), w\<lparr>w_open := w_open w @ [sid]\<rparr>)))"

definition register_session ::
  "string \<Rightarrow> string option \<Rightarrow> string \<Rightarrow> string option \<Rightarrow> string option \<Rightarrow> string \<Rightarrow> bool \<Rightarrow> unit prog" where
  "register_session sid browser email password cacheDir version quickLogin w =
     set_session sid
       \<lparr>s_browser = browser, s_context = sid, s_page = sid, s_email = email,
        s_password = (if quickLogin then None else password), s_cacheDir = cacheDir,
        s_version = version, s_createdAt = w_clock w, s_quickLogin = quickLogin\<rparr> w"

text \<open>
  The direct access with saved cookies (lines 234 to 268): inside its own \<^verbatim>\<open>try\<close>,
  whose handler only logs. \<open>Some\<close> is the early \<^verbatim>\<open>return\<close> of the success result.
\<close>

definition quick_direct :: "env \<Rightarrow> string \<Rightarrow> string \<Rightarrow> string \<Rightarrow> login_result option prog" where
  "quick_direct e sid email version =
     try_catch
       (seq (browser_call e Navigating) (\<lambda>u.
        seq (sleep 2000) (\<lambda>u.
        seq (sleep 1000) (\<lambda>u.
        seq (classifySuccess (page_success e)) (\<lambda>logged.
          if logged
          then seq (save_both e email) (\<lambda>u. ok (Some (quick_success_result sid version)))
          else ok None)))))
       (\<lambda>error. ok None)"

text \<open>The quick login that did not get in (lines 271 to 282).\<close>

definition quick_failed :: "env \<Rightarrow> string \<Rightarrow> string option \<Rightarrow> string \<Rightarrow> string \<Rightarrow> login_result prog" where
  "quick_failed e sid browser email version =
     seq (close_browser e browser) (\<lambda>u.
     seq (delete_session sid) (\<lambda>u.
     ok (quick_failed_result email version)))"

text \<open>
  The second-factor check after the click (lines 342 to 356):
  \<^verbatim>\<open>let requires2FA = await checkFor2FA(page);\<close>
  \<^verbatim>\<open>if (!requires2FA) { await sleep(1000); requires2FA = await checkFor2FA(page); }\<close>
  \<^verbatim>\<open>if (!requires2FA) { await sleep(2000); requires2FA = await checkFor2FA(page); }\<close>
  The page of the \<open>i\<close>-th check is \<open>page_2fa e i\<close>.
\<close>

definition verify2FA :: "env \<Rightarrow> bool prog" where
  "verify2FA e =
     seq (classify2FA (page_2fa e 0)) (\<lambda>first.
     seq (if \<not> first then seq (sleep 1000) (\<lambda>u. classify2FA (page_2fa e 1)) else ok first)
       (\<lambda>second.
     seq (if \<not> second then seq (sleep 2000) (\<lambda>u. classify2FA (page_2fa e 2)) else ok second)
       (\<lambda>third. ok third)))"

text \<open>The suspension (lines 358 to 382): the pending entry is stored with \<^verbatim>\<open>resolve:
  null\<close> and \<^verbatim>\<open>reject: null\<close>, then the tagged error is thrown.\<close>

definition suspend_2fa :: "string \<Rightarrow> string \<Rightarrow> string \<Rightarrow> login_result prog" where
  "suspend_2fa sid email version =
     seq (\<lambda>w. set_pending sid
                 \<lparr>p_page = sid, p_email = email, p_version = version,
                  p_timestamp = w_clock w, p_resolve = None, p_reject = None\<rparr> w) (\<lambda>u.
     throw (Error (''2FA_REQUIRED:'' @ sid @ '':'' @ version)))"

text \<open>The end of a full login without second factor (lines 384 to 423).\<close>

definition finish_login :: "env \<Rightarrow> string \<Rightarrow> string \<Rightarrow> string \<Rightarrow> login_result prog" where
  "finish_login e sid email version =
     seq (classifySuccess (page_success e)) (\<lambda>logged.
       if logged
       then seq (save_both e email) (\<lambda>u.
            seq (\<lambda>w. (Inr (), mkdir_cache (cacheDirName email version) w)) (\<lambda>u.
            ok (login_success_result sid version)))
       else throw (Error (''El login '' @ version @ '' no fue exitoso - verifica credenciales'')))"

text \<open>The credential login (lines 284 to 423).\<close>

definition credential_login :: "env \<Rightarrow> string \<Rightarrow> string \<Rightarrow> string \<Rightarrow> login_result prog" where
  "credential_login e sid email version =
     seq (browser_call e Navigating) (\<lambda>u.
     seq (sleep_random 1000 1500) (\<lambda>u.
     seq (browser_call e Selecting) (\<lambda>u.
     if \<not> emailField e
     then throw (Error (''No se pudo encontrar el campo de email en version '' @ version))
     else
     seq (browser_call e TypingEmail) (\<lambda>u.
     if \<not> passwordField e
     then throw (Error (''No se pudo encontrar el campo de contrasena en version '' @ version))
     else
     seq (browser_call e TypingPassword) (\<lambda>u.
     seq (browser_call e WaitingButton) (\<lambda>u.
     if \<not> loginButton e
     then throw (Error (''No se pudo encontrar el boton de login en version '' @ version))
     else
     seq (sleep_random 500 800) (\<lambda>u.
     seq (browser_call e Clicking) (\<lambda>u.
     seq (emit Clicked) (\<lambda>u.
     seq (sleep 3000) (\<lambda>u.
     seq (sleep 2000) (\<lambda>u.
     seq (verify2FA e) (\<lambda>requires2FA.
       if requires2FA then suspend_2fa sid email version
       else finish_login e sid email version))))))))))))"

text \<open>The \<^verbatim>\<open>try\<close> block of \<^verbatim>\<open>attemptLoginWithVersion\<close>.\<close>

definition attempt_try ::
  "env \<Rightarrow> string \<Rightarrow> string \<Rightarrow> string option \<Rightarrow> string \<Rightarrow> bool \<Rightarrow> login_result prog" where
  "attempt_try e sid email password version quickLogin w =
     (if quickLogin \<and> loadCookies email w = None
      then (Inr (no_cookies_result email version), w)
      else seq (if quickLogin then createPersistentContext e sid email version
                else launch_fresh e sid)
             (\<lambda>(browser, savedCookies, cacheDir).
             seq (register_session sid browser email password cacheDir version quickLogin) (\<lambda>u.
             seq (if quickLogin \<and> savedCookies \<noteq> None then quick_direct e sid email version
                  else ok None)
               (\<lambda>direct.
                case direct of
                  Some result \<Rightarrow> ok result
                | None \<Rightarrow>
                    if quickLogin then quick_failed e sid browser email version
                    else credential_login e sid email version))) w)"

text \<open>
  Its \<^verbatim>\<open>catch\<close> block: the tagged second-factor error is thrown again and the session
  is kept; any other error closes the browser of the session, removes the session and
  becomes a failure result.
\<close>

definition attempt_catch :: "env \<Rightarrow> string \<Rightarrow> string \<Rightarrow> exn \<Rightarrow> login_result prog" where
  "attempt_catch e sid version error w =
     (if startsWith (message error) ''2FA_REQUIRED:'' then (Inl error, w)
      else (case map_of (activeSessions w) sid of
              None \<Rightarrow> (Inr (failure_result version error), w)
            | Some s \<Rightarrow>
                seq (case s_browser s of None \<Rightarrow> ok () | Some h \<Rightarrow> close_handle e h) (\<lambda>u.
                seq (delete_session sid) (\<lambda>u.
                ok (failure_result version error))) w))"

definition attemptLoginWithVersion ::
  "env \<Rightarrow> string \<Rightarrow> string option \<Rightarrow> string \<Rightarrow> bool \<Rightarrow> login_result prog" where
  "attemptLoginWithVersion e email password version quickLogin w =
     (let sid = sessionIdFor quickLogin email version (w_clock w)
      in try_catch (attempt_try e sid email password version quickLogin)
                   (attempt_catch e sid version) w)"

section \<open>Orchestration: performFacebookLoginPersistent and performQuickLogin\<close>

text \<open>The result returned when an attempt is waiting for its second factor.\<close>

definition requires2FA_result :: "string option \<Rightarrow> string \<Rightarrow> string option \<Rightarrow> login_result" where
  "requires2FA_result sid label version =
     \<lparr>success = False, sessionId = sid,
      msg = ''Se requiere codigo 2FA '' @ label @ ''. Usa el modal para ingresar el codigo.'',
      err = None, version_of = version, requires2FA = True, attempts = None\<rparr>"

text \<open>\<^verbatim>\<open>Array.from(pending2FASessions.entries()).find(([id, data]) => data.email === email
  && data.version === v)?.[0]\<close>\<close>

definition find_pending :: "string \<Rightarrow> string \<Rightarrow> (string \<times> pending) list \<Rightarrow> string option" where
  "find_pending email v entries =
     map_option fst (List.find (\<lambda>entry. p_email (snd entry) = email \<and> p_version (snd entry) = v) entries)"

text \<open>
  The \<^verbatim>\<open>catch\<close> blocks of \<^verbatim>\<open>performFacebookLoginPersistent\<close> up to their last
  statement: for the tagged error the session id and the version are the second and the
  third piece of the message split at the colons; otherwise a pending entry of the same
  identity and version is looked for. \<open>None\<close> means that neither \<^verbatim>\<open>return\<close> was taken.
\<close>

definition twoFA_handler :: "string \<Rightarrow> string \<Rightarrow> string \<Rightarrow> exn \<Rightarrow> world \<Rightarrow> login_result option" where
  "twoFA_handler email v label error w =
     (if startsWith (message error) ''2FA_REQUIRED:''
      then (let parts = split_on CHR '':'' (message error)
            in Some (requires2FA_result (index parts 1) label (index parts 2)))
      else if length (pending2FASessions w) > 0
      then (case find_pending email v (pending2FASessions w) of
              None \<Rightarrow> None
            | Some sid \<Rightarrow> if sid = [] then None else Some (requires2FA_result (Some sid) label (Some v)))
      else None)"

text \<open>The branches for \<^verbatim>\<open>versionChoice === 'mobile'\<close> and \<^verbatim>\<open>'desktop'\<close>: the handler
  ends with \<^verbatim>\<open>throw error\<close>.\<close>

definition login_single :: "env \<Rightarrow> string \<Rightarrow> string \<Rightarrow> string \<Rightarrow> string \<Rightarrow> login_result prog" where
  "login_single e email password v label w =
     (case attemptLoginWithVersion e email (Some password) v False w of
        (Inr result, w') \<Rightarrow> (Inr result, w')
      | (Inl error, w') \<Rightarrow>
          (case twoFA_handler email v label error w' of
             Some result \<Rightarrow> (Inr result, w')
           | None \<Rightarrow> (Inl error, w')))"

text \<open>
  Reading a variable: a name that no enclosing scope declares throws a
  \<^verbatim>\<open>ReferenceError\<close>. The scope is the list of the result variables visible at the
  place of the read.
\<close>

definition lookup_variable :: "(string \<times> login_result) list \<Rightarrow> string \<Rightarrow> exn + login_result" where
  "lookup_variable scope name =
     (case map_of scope name of
        None \<Rightarrow> Inl (ReferenceError (name @ '' is not defined''))
      | Some v \<Rightarrow> Inr v)"

text \<open>
  The object literal of the last \<^verbatim>\<open>return\<close> of both orchestration functions:
  \<^verbatim>\<open>{success: false, sessionId: null, message: .., error: 'BOTH_VERSIONS_FAILED',
  attempts: {mobile: mobileResult.message, desktop: desktopResult.message}}\<close>.
\<close>

definition both_failed_result :: "(string \<times> login_result) list \<Rightarrow> string \<Rightarrow> exn + login_result" where
  "both_failed_result scope text =
     (case lookup_variable scope ''mobileResult'' of
        Inl x \<Rightarrow> Inl x
      | Inr mobileResult \<Rightarrow>
          (case lookup_variable scope ''desktopResult'' of
             Inl x \<Rightarrow> Inl x
           | Inr desktopResult \<Rightarrow>
               Inr \<lparr>success = False, sessionId = None, msg = text,
                    err = Some ''BOTH_VERSIONS_FAILED'', version_of = None, requires2FA = False,
                    attempts = Some (msg mobileResult, msg desktopResult)\<rparr>))"

text \<open>
  The automatic branch of \<^verbatim>\<open>performFacebookLoginPersistent\<close> (lines 547 to 643). In the
  source \<^verbatim>\<open>const mobileResult\<close> and \<^verbatim>\<open>const desktopResult\<close> are declared inside the
  two \<^verbatim>\<open>try\<close> blocks, so at the last \<^verbatim>\<open>return\<close>, outside both blocks, no result
  variable is in scope: the scope there is empty.
\<close>

definition login_auto_final :: "string \<Rightarrow> login_result prog" where
  "login_auto_final email w =
     (case both_failed_result []
             (''Login fallo en ambas versiones para '' @ email @ ''. Verifica credenciales.'') of
        Inl x \<Rightarrow> (Inl x, w)
      | Inr result \<Rightarrow> (Inr result, w))"

definition login_auto_desktop :: "env \<Rightarrow> string \<Rightarrow> string \<Rightarrow> login_result prog" where
  "login_auto_desktop e email password w =
     (case attemptLoginWithVersion e email (Some password) ''desktop'' False w of
        (Inr desktopResult, w') \<Rightarrow>
          (if success desktopResult then (Inr desktopResult, w') else login_auto_final email w')
      | (Inl error, w') \<Rightarrow>
          (case twoFA_handler email ''desktop'' ''desktop'' error w' of
             Some result \<Rightarrow> (Inr result, w')
           | None \<Rightarrow> login_auto_final email w'))"

definition login_auto :: "(string \<Rightarrow> env) \<Rightarrow> string \<Rightarrow> string \<Rightarrow> login_result prog" where
  "login_auto envs email password w =
     (case attemptLoginWithVersion (envs ''mobile'') email (Some password) ''mobile'' False w of
        (Inr mobileResult, w') \<Rightarrow>
          (if success mobileResult then (Inr mobileResult, w')
           else login_auto_desktop (envs ''desktop'') email password w')
      | (Inl error, w') \<Rightarrow>
          (case twoFA_handler email ''mobile'' ''movil'' error w' of
             Some result \<Rightarrow> (Inr result, w')
           | None \<Rightarrow> login_auto_desktop (envs ''desktop'') email password w'))"

text \<open>\<open>envs v\<close> is what the browser and the site answer during the attempt on version \<open>v\<close>.\<close>

definition performFacebookLoginPersistent ::
  "(string \<Rightarrow> env) \<Rightarrow> string \<Rightarrow> string \<Rightarrow> string \<Rightarrow> login_result prog" where
  "performFacebookLoginPersistent envs email password versionChoice =
     (if versionChoice = ''mobile''
      then login_single (envs ''mobile'') email password ''mobile'' ''movil''
      else if versionChoice = ''desktop''
      then login_single (envs ''desktop'') email password ''desktop'' ''desktop''
      else login_auto envs email password)"

text \<open>\<^verbatim>\<open>performQuickLogin\<close> (lines 651 to 694). Here both result variables are declared
  in the function body and are in scope at the last \<^verbatim>\<open>return\<close>.\<close>

definition performQuickLogin :: "(string \<Rightarrow> env) \<Rightarrow> string \<Rightarrow> string \<Rightarrow> login_result prog" where
  "performQuickLogin envs email versionChoice w =
     (if versionChoice = ''mobile''
      then attemptLoginWithVersion (envs ''mobile'') email None ''mobile'' True w
      else if versionChoice = ''desktop''
      then attemptLoginWithVersion (envs ''desktop'') email None ''desktop'' True w
      else
        (case attemptLoginWithVersion (envs ''mobile'') email None ''mobile'' True w of
           (Inl x, w1) \<Rightarrow> (Inl x, w1)
         | (Inr mobileResult, w1) \<Rightarrow>
             (if success mobileResult then (Inr mobileResult, w1)
              else
                (case attemptLoginWithVersion (envs ''desktop'') email None ''desktop'' True w1 of
                   (Inl x, w2) \<Rightarrow> (Inl x, w2)
                 | (Inr desktopResult, w2) \<Rightarrow>
                     (if success desktopResult then (Inr desktopResult, w2)
                      else if err mobileResult = Some ''NO_COOKIES'' then (Inr mobileResult, w2)
                      else
                        (case both_failed_result
                                [(''mobileResult'', mobileResult), (''desktopResult'', desktopResult)]
                                (''Quick login fallo en ambas versiones para '' @ email @
                                 ''. Usa login normal para renovar cookies.'') of
                           Inl x \<Rightarrow> (Inl x, w2)
                         | Inr result \<Rightarrow> (Inr result, w2)))))))"

section \<open>closeSession and the routes\<close>

record close_result =
  cs_success :: bool
  cs_message :: string

text \<open>
  \<^verbatim>\<open>closeSession\<close> (lines 701 to 729): an unknown id is answered without any change;
  otherwise the state is saved, the browser is closed and the session removed. A throw
  is caught and reported; the session then stays.
\<close>

definition closeSession :: "env \<Rightarrow> string \<Rightarrow> close_result prog" where
  "closeSession e sid w =
     (case map_of (activeSessions w) sid of
        None \<Rightarrow> (Inr \<lparr>cs_success = False, cs_message = ''Sesion no encontrada''\<rparr>, w)
      | Some s \<Rightarrow>
          try_catch
            (seq (save_both e (s_email s)) (\<lambda>u.
             seq (case s_browser s of None \<Rightarrow> ok () | Some h \<Rightarrow> close_handle e h) (\<lambda>u.
             seq (delete_session sid) (\<lambda>u.
             ok \<lparr>cs_success = True, cs_message = ''Sesion cerrada exitosamente''\<rparr>))))
            (\<lambda>error. ok \<lparr>cs_success = False,
                           cs_message = ''Error cerrando sesion: '' @ message error\<rparr>) w)"

text \<open>An HTTP answer: the status and the properties of the JSON body that the routes
  set; a property that is not set is \<open>None\<close>.\<close>

record response =
  status :: nat
  r_success :: "bool option"
  r_sessionId :: "string option"
  r_message :: "string option"
  r_error :: "string option"
  r_requires2FA :: "bool option"
  r_stillRequires2FA :: "bool option"
  r_loginCompleted :: "bool option"
  r_filesDeleted :: "nat option"
  r_attempts :: "(string \<times> string) option"

definition answer :: "nat \<Rightarrow> response" where
  "answer code =
     \<lparr>status = code, r_success = None, r_sessionId = None, r_message = None, r_error = None,
      r_requires2FA = None, r_stillRequires2FA = None, r_loginCompleted = None,
      r_filesDeleted = None, r_attempts = None\<rparr>"

text \<open>\<^verbatim>\<open>app.post('/login')\<close> (lines 751 to 796).\<close>

definition post_login ::
  "(string \<Rightarrow> env) \<Rightarrow> string \<Rightarrow> string \<Rightarrow> string \<Rightarrow> world \<Rightarrow> response \<times> world" where
  "post_login envs email password version w =
     (if email = [] \<or> password = []
      then ((answer 400)\<lparr>r_error := Some ''Email y contrasena son requeridos.''\<rparr>, w)
      else
        (case performFacebookLoginPersistent envs email password version w of
           (Inr result, w') \<Rightarrow>
             (if success result
              then ((answer 200)\<lparr>r_success := Some True, r_sessionId := sessionId result,
                                 r_message := Some (msg result)\<rparr>, w')
              else ((answer 401)\<lparr>r_success := Some False, r_sessionId := sessionId result,
                                 r_message := Some (msg result), r_error := err result,
                                 r_requires2FA := Some (requires2FA result),
                                 r_attempts := attempts result\<rparr>, w'))
         | (Inl error, w') \<Rightarrow>
             ((answer 500)\<lparr>r_error := Some (''Error interno del servidor: '' @ message error)\<rparr>,
              w')))"

text \<open>
  \<^verbatim>\<open>app.post('/submit-2fa')\<close>, the inner \<^verbatim>\<open>try\<close> block (lines 1088 to 1310): the code
  field is looked for, clicked and cleared, the code is typed, the submit control is
  looked for and clicked, then the page is classified. On success the artifacts are
  saved when the session is registered, the pending entry is deleted, the stored
  \<^verbatim>\<open>resolve\<close> is called and the answer is sent.
\<close>

definition submit_2fa_try :: "env \<Rightarrow> string \<Rightarrow> pending \<Rightarrow> response prog" where
  "submit_2fa_try e sid sessionData =
     (if \<not> codeInput e then throw (Error ''No se pudo encontrar el campo de codigo 2FA'')
      else
      seq (browser_call e TypingCode) (\<lambda>u.
      seq (sleep 500) (\<lambda>u.
      seq (browser_call e TypingCode) (\<lambda>u.
      seq (sleep 1000) (\<lambda>u.
      if \<not> submitButton e then throw (Error ''No se pudo encontrar el boton de envio 2FA'')
      else
      seq (browser_call e Clicking) (\<lambda>u.
      seq (emit Clicked) (\<lambda>u.
      seq (sleep 3000) (\<lambda>u.
      seq (classify2FA (page_2fa e 0)) (\<lambda>still.
        if still
        then ok ((answer 200)\<lparr>r_success := Some False,
                   r_message := Some ''Codigo 2FA incorrecto. Intenta nuevamente.'',
                   r_stillRequires2FA := Some True\<rparr>)
        else
        seq (classifySuccess (page_success e)) (\<lambda>logged.
          if logged
          then
            seq (\<lambda>w. case map_of (activeSessions w) sid of
                       None \<Rightarrow> (Inr (), w)
                     | Some s \<Rightarrow> save_both e (p_email sessionData) w) (\<lambda>u.
            seq (delete_pending sid) (\<lambda>u.
            seq (call_resolve ''resolve'' (p_resolve sessionData)
                   \<lparr>success = True, sessionId = Some sid,
                    msg = ''Login '' @ p_version sessionData @
                          '' exitoso con 2FA! Cookies + cache guardados. Pagina permanece abierta.'',
                    err = None, version_of = Some (p_version sessionData), requires2FA = False,
                    attempts = None\<rparr>) (\<lambda>u.
            ok ((answer 200)\<lparr>r_success := Some True,
                  r_message := Some (''Login '' @ p_version sessionData @ '' exitoso con 2FA!''),
                  r_loginCompleted := Some True\<rparr>))))
          else throw (Error ''Login no exitoso despues de 2FA'')))))))))))"

text \<open>The route (lines 1064 to 1329): validation, the lookup of the pending entry, the
  block above, and its handler, which answers and keeps whatever state was reached.\<close>

definition post_submit_2fa :: "env \<Rightarrow> string \<Rightarrow> string \<Rightarrow> world \<Rightarrow> response \<times> world" where
  "post_submit_2fa e sid code w =
     (if sid = [] \<or> code = []
      then ((answer 400)\<lparr>r_success := Some False,
              r_message := Some ''Se requiere sessionId y codigo 2FA''\<rparr>, w)
      else
        (case map_of (pending2FASessions w) sid of
           None \<Rightarrow>
             ((answer 404)\<lparr>r_success := Some False,
                r_message := Some ''Sesion no encontrada o no esta esperando 2FA''\<rparr>, w)
         | Some sessionData \<Rightarrow>
             (case try_catch (submit_2fa_try e sid sessionData)
                     (\<lambda>error. ok ((answer 200)\<lparr>r_success := Some False,
                        r_message := Some (''Error procesando 2FA: '' @ message error),
                        r_stillRequires2FA := Some True\<rparr>)) w of
                (Inr res, w') \<Rightarrow> (res, w')
              | (Inl error, w') \<Rightarrow>
                  ((answer 500)\<lparr>r_success := Some False,
                     r_message := Some (''Error del servidor: '' @ message error)\<rparr>, w'))))"

text \<open>
  \<^verbatim>\<open>app.post('/cancel-2fa')\<close> (lines 1332 to 1368): a pending entry is deleted and its
  stored \<^verbatim>\<open>reject\<close> is called; then \<^verbatim>\<open>closeSession\<close>, whose result is not looked at;
  then the answer. Any throw goes to the handler, which answers with status 500.
\<close>

definition post_cancel_2fa :: "env \<Rightarrow> string \<Rightarrow> world \<Rightarrow> response \<times> world" where
  "post_cancel_2fa e sid w =
     (if sid = []
      then ((answer 400)\<lparr>r_success := Some False, r_message := Some ''Se requiere sessionId''\<rparr>, w)
      else
        (case seq (case map_of (pending2FASessions w) sid of
                     None \<Rightarrow> ok ()
                   | Some sessionData \<Rightarrow>
                       seq (delete_pending sid) (\<lambda>u.
                       call_reject ''sessionData.reject'' (p_reject sessionData)
                         (Error ''2FA cancelado por el usuario''))) (\<lambda>u.
                  seq (closeSession e sid) (\<lambda>closed.
                  ok ((answer 200)\<lparr>r_success := Some True,
                        r_message := Some ''2FA cancelado y sesion cerrada''\<rparr>))) w of
           (Inr res, w') \<Rightarrow> (res, w')
         | (Inl error, w') \<Rightarrow>
             ((answer 500)\<lparr>r_success := Some False,
                r_message := Some (''Error del servidor: '' @ message error)\<rparr>, w')))"

text \<open>
  \<^verbatim>\<open>app.delete('/cookies/:email')\<close> (lines 954 to 995): the cookie file, the session
  file and the directory \<^verbatim>\<open>path.join(CACHE_DIR, email.replace(/[@.]/g, '_'))\<close> are each
  removed when they exist, and counted.
\<close>

definition remove_file :: "string \<Rightarrow> world \<Rightarrow> nat \<times> world" where
  "remove_file name w =
     (case w_files w name of
        None \<Rightarrow> (0, w)
      | Some f \<Rightarrow> (1, w\<lparr>w_files := (w_files w)(name := None)\<rparr>))"

definition remove_cache :: "string \<Rightarrow> world \<Rightarrow> nat \<times> world" where
  "remove_cache name w =
     (if name \<in> set (w_cacheDirs w)
      then (1, w\<lparr>w_cacheDirs := removeAll name (w_cacheDirs w)\<rparr>)
      else (0, w))"

definition delete_cookies :: "string \<Rightarrow> world \<Rightarrow> response \<times> world" where
  "delete_cookies email w =
     (let (n1, w1) = remove_file (cookieFile email) w;
          (n2, w2) = remove_file (sessionFile email) w1;
          (n3, w3) = remove_cache (sanitize email) w2;
          deleted = n1 + n2 + n3
      in if deleted > 0
         then ((answer 200)\<lparr>r_success := Some True,
                 r_message := Some (''Datos eliminados para '' @ email @ '' ('' @ show_nat deleted @
                                    '' elementos)''),
                 r_filesDeleted := Some deleted\<rparr>, w3)
         else ((answer 404)\<lparr>r_success := Some False,
                 r_message := Some (''No se encontraron datos para '' @ email)\<rparr>, w3))"

section \<open>Time\<close>

text \<open>
  The older server kept in the second half of \<^verbatim>\<open>src/unnamed/part_000\<close> suspends
  differently (lines 1784 to 1807): it parks a promise, stores its \<^verbatim>\<open>resolve\<close> and
  \<^verbatim>\<open>reject\<close> in the pending entry and arms a timer of 30 minutes.
\<close>

definition twoFA_timeout :: int where
  "twoFA_timeout = 30 * 60 * 1000"

definition legacy_suspend :: "string \<Rightarrow> string \<Rightarrow> string \<Rightarrow> world \<Rightarrow> world" where
  "legacy_suspend sid email version w =
     w\<lparr>pending2FASessions :=
         AList.update sid
           \<lparr>p_page = sid, p_email = email, p_version = version, p_timestamp = w_clock w,
            p_resolve = Some (Resolver sid), p_reject = Some (Rejecter sid)\<rparr>
           (pending2FASessions w),
       w_timers := w_timers w @ [(w_clock w + twoFA_timeout, sid)]\<rparr>"

text \<open>The callback of that timer:
  \<^verbatim>\<open>if (pending2FASessions.has(sessionId)) { pending2FASessions.delete(sessionId);
  reject(new Error('Timeout esperando codigo 2FA (30 minutos)')); }\<close>\<close>

definition timer_fires :: "string \<Rightarrow> world \<Rightarrow> world" where
  "timer_fires sid w =
     (case map_of (pending2FASessions w) sid of
        None \<Rightarrow> w
      | Some sessionData \<Rightarrow>
          w\<lparr>pending2FASessions := AList.delete sid (pending2FASessions w),
            w_settled := w_settled w @
              [(sid, Inl (Error ''Timeout esperando codigo 2FA (30 minutos)''))]\<rparr>)"

text \<open>
  Time passing while no request is handled: the clock moves on, and the armed timers
  that are due run their callbacks, in the order in which they were armed.
\<close>

definition advance_clock :: "nat \<Rightarrow> world \<Rightarrow> world" where
  "advance_clock ms w =
     (let now = w_clock w + int ms;
          due = filter (\<lambda>t. fst t \<le> now) (w_timers w);
          rest = filter (\<lambda>t. \<not> fst t \<le> now) (w_timers w)
      in fold (\<lambda>t. timer_fires (snd t)) due (w\<lparr>w_clock := now, w_timers := rest\<rparr>))"

section \<open>The retry ladder, stated\<close>

text \<open>Whether the \<open>i\<close>-th second-factor check of an attempt answers yes.\<close>

definition requires2FA_at :: "env \<Rightarrow> nat \<Rightarrow> bool" where
  "requires2FA_at e i = (checkFor2FA (page_2fa e i) = Inr True)"

text \<open>The checks and waits of the ladder for the three possible answers.\<close>

definition ladder_events :: "bool \<Rightarrow> bool \<Rightarrow> bool \<Rightarrow> event list" where
  "ladder_events c0 c1 c2 =
     (if c0 then [Checked2FA True]
      else if c1 then [Checked2FA False, Slept 1000, Checked2FA True]
      else [Checked2FA False, Slept 1000, Checked2FA False, Slept 2000, Checked2FA c2])"


text \<open>An environment in which every browser call of a full login works and every
  element is found.\<close>

definition cooperative :: "env \<Rightarrow> bool" where
  "cooperative e =
     (throws e Launching = None \<and> throws e Navigating = None \<and> throws e Selecting = None \<and>
      throws e TypingEmail = None \<and> throws e TypingPassword = None \<and>
      throws e WaitingButton = None \<and> throws e Clicking = None \<and>
      emailField e \<and> passwordField e \<and> loginButton e)"

section \<open>Concrete pages, sites and runs\<close>

definition twofa_page :: page where
  \<open>twofa_page =
     \<lparr>pg_url = Inr ''https://m.facebook.com/login/'',
      pg_title = Inr ''Facebook'',
      pg_isVisible = (\<lambda>selector. Inr (selector = ''input[name="approvals_code"]'')),
      pg_count = (\<lambda>selector. Inr 0)\<rparr>\<close>

definition home_page :: page where
  "home_page =
     \<lparr>pg_url = Inr ''https://m.facebook.com/home.php'',
      pg_title = Inr ''Facebook'',
      pg_isVisible = (\<lambda>selector. Inr False),
      pg_count = (\<lambda>selector. Inr 0)\<rparr>"

definition login_page :: page where
  "login_page =
     \<lparr>pg_url = Inr ''https://m.facebook.com/login/'',
      pg_title = Inr ''Facebook'',
      pg_isVisible = (\<lambda>selector. Inr False),
      pg_count = (\<lambda>selector. Inr 2)\<rparr>"

definition some_state :: pageState where
  "some_state =
     \<lparr>ps_url = ''https://m.facebook.com/home.php'', ps_title = ''Facebook'',
      ps_localStorage = [], ps_sessionStorage = []\<rparr>"

text \<open>A site that asks for the second factor after the credentials.\<close>

definition site_2fa :: env where
  "site_2fa =
     \<lparr>throws = (\<lambda>s. None), context_browser = True, emailField = True, passwordField = True,
      loginButton = True, codeInput = True, submitButton = True,
      page_2fa = (\<lambda>i. twofa_page), page_success = twofa_page,
      context_cookies = Inr [''datr=1''], page_state = Inr some_state\<rparr>"

text \<open>A site that accepts what was sent: no second factor is asked and the home page shows.\<close>

definition site_accepts :: env where
  "site_accepts =
     \<lparr>throws = (\<lambda>s. None), context_browser = True, emailField = True, passwordField = True,
      loginButton = True, codeInput = True, submitButton = True,
      page_2fa = (\<lambda>i. home_page), page_success = home_page,
      context_cookies = Inr [''c_user=100'', ''xs=abc''], page_state = Inr some_state\<rparr>"

text \<open>A site on which the email field is not found.\<close>

definition site_no_email_field :: env where
  "site_no_email_field =
     \<lparr>throws = (\<lambda>s. None), context_browser = True, emailField = False, passwordField = True,
      loginButton = True, codeInput = False, submitButton = False,
      page_2fa = (\<lambda>i. login_page), page_success = login_page,
      context_cookies = Inr [], page_state = Inr some_state\<rparr>"

text \<open>The process just started, with empty directories, at some time of day.\<close>

definition world0 :: world where
  "world0 =
     \<lparr>w_clock = 1700000000000, w_files = Map.empty, w_cacheDirs = [], activeSessions = [],
      pending2FASessions = [], w_open = [], w_timers = [], w_settled = [], w_trace = []\<rparr>"

definition user :: string where
  "user = ''user@example.com''"

definition user_sid :: string where
  "user_sid = ''user_example_com-mobile-1700000000000''"

text \<open>The world after a full mobile login of the user that the site answers with its
  second-factor page.\<close>

definition world_suspended :: world where
  "world_suspended = snd (post_login (\<lambda>v. site_2fa) user ''secret'' ''mobile'' world0)"

text \<open>The world after a full mobile login of the user that the site accepts.\<close>

definition world_logged_in :: world where
  "world_logged_in = snd (post_login (\<lambda>v. site_accepts) user ''secret'' ''mobile'' world0)"

text \<open>A world whose only file is a cookie bundle of the user written eight days ago.\<close>

definition world_stale :: world where
  "world_stale =
     world0\<lparr>w_files := [cookieFile user \<mapsto>
       CookieJson \<lparr>cd_email = user, cd_timestamp = 1700000000000 - 8 * 24 * 60 * 60 * 1000,
                   cd_cookies = [''c_user=100'']\<rparr>]\<rparr>"

text \<open>
  A world whose only file is the cookie bundle that \<^verbatim>\<open>john@doe.mail.com\<close> stored a day
  ago; \<^verbatim>\<open>john.doe@mail.com\<close> has stored nothing.
\<close>

definition world_shared_name :: world where
  "world_shared_name =
     world0\<lparr>w_files := [cookieFile ''john@doe.mail.com'' \<mapsto>
       CookieJson \<lparr>cd_email = ''john@doe.mail.com'',
                   cd_timestamp = 1700000000000 - 24 * 60 * 60 * 1000,
                   cd_cookies = [''c_user=200'']\<rparr>]\<rparr>"

named_theorems machine_defs

lemmas [machine_defs] =
  ok_def throw_def seq_def try_catch_def emit_def browser_call_def sleep_def sleep_random_def
  classify2FA_def classifySuccess_def maxAge_def loadCookies_def saveCookies_def
  saveSessionState_def save_both_def mkdir_cache_def set_session_def delete_session_def
  set_pending_def delete_pending_def close_handle_def close_browser_def call_resolve_def
  call_reject_def no_cookies_result_def quick_failed_result_def
  quick_success_result_def login_success_result_def failure_result_def
  createPersistentContext_def launch_fresh_def register_session_def quick_direct_def
  quick_failed_def suspend_2fa_def finish_login_def credential_login_def
  attempt_try_def attempt_catch_def attemptLoginWithVersion_def requires2FA_result_def
  find_pending_def twoFA_handler_def login_single_def lookup_variable_def
  both_failed_result_def login_auto_final_def login_auto_desktop_def login_auto_def
  performFacebookLoginPersistent_def performQuickLogin_def closeSession_def answer_def
  post_login_def submit_2fa_try_def post_submit_2fa_def post_cancel_2fa_def remove_file_def
  remove_cache_def delete_cookies_def

named_theorems name_defs

lemmas [name_defs] =
  sanitize_def special_def cookieFile_def sessionFile_def cacheDirName_def digit_def
  show_int_def sessionIdFor_def

named_theorems scenario_defs

lemmas [scenario_defs] =
  twofa_page_def home_page_def login_page_def some_state_def site_2fa_def site_accepts_def
  site_no_email_field_def world0_def user_def user_sid_def world_stale_def

named_theorems classifier_defs

lemmas [classifier_defs] =
  checkFor2FA_def checkFor2FA_try_def checkLoginSuccess_def twoFAIndicators_def
  twoFAUrlPatterns_def successTwoFAIndicators_def successUrls_def successIndicators_def
  loginFieldsSelector_def

section \<open>Facts about the embedded functions\<close>

subsection \<open>The sanitizing transform\<close>

lemma sanitize_eq_iff: "sanitize a = sanitize b \<longleftrightarrow> same_shape a b"
  unfolding sanitize_def same_shape_def
proof (induction a arbitrary: b)
  case Nil
  show ?case by auto
next
  case (Cons x xs)
  show ?case
  proof (cases b)
    case Nil
    then show ?thesis by simp
  next
    case (Cons y ys)
    with Cons.IH [of ys] show ?thesis
      by (auto simp: underscored_def special_def)
  qed
qed

subsection \<open>The classifiers and the ladder\<close>

lemma checkFor2FA_answers: "\<exists>b. checkFor2FA p = Inr b"
  by (cases "checkFor2FA_try p") (auto simp: checkFor2FA_def)

lemma checkFor2FA_cases:
  obtains "checkFor2FA p = Inr True" | "checkFor2FA p = Inr False"
  using checkFor2FA_answers [of p] by (metis (full_types))

lemma verify2FA_eq:
  "verify2FA e w =
     (Inr (requires2FA_at e 0 \<or> requires2FA_at e 1 \<or> requires2FA_at e 2),
      w\<lparr>w_trace := w_trace w @
           ladder_events (requires2FA_at e 0) (requires2FA_at e 1) (requires2FA_at e 2)\<rparr>)"
proof -
  note defs = verify2FA_def seq_def ok_def sleep_def emit_def classify2FA_def requires2FA_at_def
    ladder_events_def
  show ?thesis
  proof (cases "page_2fa e 0" rule: checkFor2FA_cases)
    case 1
    then show ?thesis by (simp add: defs)
  next
    case 2
    note first = this
    show ?thesis
    proof (cases "page_2fa e (Suc 0)" rule: checkFor2FA_cases)
      case 1
      with first show ?thesis by (simp add: defs)
    next
      case 2
      note second = this
      show ?thesis
        by (cases "page_2fa e 2" rule: checkFor2FA_cases) (simp_all add: defs first second)
    qed
  qed
qed


subsection \<open>Quick login without usable cookies\<close>

lemma quick_attempt_without_cookies:
  "loadCookies email w = None \<Longrightarrow>
   attemptLoginWithVersion e email password version True w =
     (Inr (no_cookies_result email version), w)"
  by (simp add: attemptLoginWithVersion_def attempt_try_def try_catch_def Let_def)

lemma quick_login_without_cookies:
  assumes "loadCookies email w = None"
  shows "performQuickLogin envs email versionChoice w =
     (Inr (no_cookies_result email
            (if versionChoice = ''desktop'' then ''desktop'' else ''mobile'')), w)"
  using assms
  by (simp add: performQuickLogin_def quick_attempt_without_cookies no_cookies_result_def)

text \<open>With no file under the derived name, or only one older than seven days, every
  quick login returns the \<^verbatim>\<open>NO_COOKIES\<close> result and changes nothing.\<close>

lemma quick_login_without_cookie_file:
  assumes "w_files w (cookieFile email) = None \<or>
           (\<exists>f t. w_files w (cookieFile email) = Some f \<and> file_timestamp f = Some t \<and>
                  w_clock w - t > 7 * 24 * 60 * 60 * 1000)"
  shows "performQuickLogin envs email versionChoice w =
           (Inr (no_cookies_result email
                  (if versionChoice = ''desktop'' then ''desktop'' else ''mobile'')), w) \<and>
         err (no_cookies_result email v) = Some ''NO_COOKIES'' \<and>
         \<not> success (no_cookies_result email v) \<and>
         sessionId (no_cookies_result email v) = None"
proof -
  from assms have "loadCookies email w = None"
    by (auto simp: loadCookies_def maxAge_def)
  then show ?thesis
    by (simp add: quick_login_without_cookies) (simp add: no_cookies_result_def)
qed

subsection \<open>Suspension, and the calls that find the stored callbacks empty\<close>

lemma attempt_suspends:
  assumes "cooperative e"
      and "requires2FA_at e 0 \<or> requires2FA_at e 1 \<or> requires2FA_at e 2"
  shows "attemptLoginWithVersion e email (Some password) version False w =
     (Inl (Error (''2FA_REQUIRED:'' @ sessionIdFor False email version (w_clock w) @ '':'' @
                  version)),
      w\<lparr>activeSessions :=
           AList.update (sessionIdFor False email version (w_clock w))
             \<lparr>s_browser = Some (sessionIdFor False email version (w_clock w)),
              s_context = sessionIdFor False email version (w_clock w),
              s_page = sessionIdFor False email version (w_clock w),
              s_email = email, s_password = Some password, s_cacheDir = None,
              s_version = version, s_createdAt = w_clock w, s_quickLogin = False\<rparr>
             (activeSessions w),
         pending2FASessions :=
           AList.update (sessionIdFor False email version (w_clock w))
             \<lparr>p_page = sessionIdFor False email version (w_clock w), p_email = email,
              p_version = version, p_timestamp = w_clock w, p_resolve = None, p_reject = None\<rparr>
             (pending2FASessions w),
         w_open := w_open w @ [sessionIdFor False email version (w_clock w)],
         w_trace := w_trace w @
           [Launched (sessionIdFor False email version (w_clock w)), SleptBetween 1000 1500,
            SleptBetween 500 800, Clicked, Slept 3000, Slept 2000] @
           ladder_events (requires2FA_at e 0) (requires2FA_at e 1) (requires2FA_at e 2)\<rparr>)"
  using assms
  by (simp add: machine_defs verify2FA_eq cooperative_def Let_def)

lemma advance_without_timers:
  "w_timers w = [] \<Longrightarrow> advance_clock ms w = w\<lparr>w_clock := w_clock w + int ms\<rparr>"
  by (cases w) (simp add: advance_clock_def Let_def)

lemma submit_with_null_resolve:
  assumes "map_of (pending2FASessions w) sid = Some sessionData"
      and "p_resolve sessionData = None"
      and "sid \<noteq> []" and "code \<noteq> []"
      and "codeInput e" and "submitButton e"
      and "throws e TypingCode = None" and "throws e Clicking = None"
      and "checkFor2FA (page_2fa e 0) = Inr False"
      and "checkLoginSuccess (page_success e) = Inr True"
  shows "fst (post_submit_2fa e sid code w) =
           (answer 200)\<lparr>r_success := Some False,
              r_message := Some ''Error procesando 2FA: resolve is not a function'',
              r_stillRequires2FA := Some True\<rparr> \<and>
         map_of (pending2FASessions (snd (post_submit_2fa e sid code w))) sid = None"
  using assms
  by (simp add: machine_defs delete_conv' split: option.split)

lemma cancel_with_null_reject:
  assumes "map_of (pending2FASessions w) sid = Some sessionData"
      and "p_reject sessionData = None"
      and "sid \<noteq> []"
  shows "post_cancel_2fa e sid w =
           ((answer 500)\<lparr>r_success := Some False,
               r_message := Some ''Error del servidor: sessionData.reject is not a function''\<rparr>,
            w\<lparr>pending2FASessions := AList.delete sid (pending2FASessions w)\<rparr>)"
  using assms
  by (simp add: machine_defs)

lemma close_unknown_session:
  "map_of (activeSessions w) sid = None \<Longrightarrow>
   closeSession e sid w = (Inr \<lparr>cs_success = False, cs_message = ''Sesion no encontrada''\<rparr>, w)"
  by (simp add: closeSession_def)

subsection \<open>The concrete pages, names and runs\<close>

lemma checkFor2FA_twofa_page: "checkFor2FA twofa_page = Inr True"
  by (simp add: classifier_defs twofa_page_def)

lemma checkFor2FA_home_page: "checkFor2FA home_page = Inr False"
  by (simp add: classifier_defs home_page_def)

lemma checkLoginSuccess_home_page: "checkLoginSuccess home_page = Inr True"
  by (simp add: classifier_defs home_page_def)

lemma user_not_empty: "user \<noteq> []"
  by (simp add: user_def)

lemma user_sid_not_empty: "user_sid \<noteq> []"
  by (simp add: user_sid_def)

lemma user_sid_mobile: "sessionIdFor False user ''mobile'' 1700000000000 = user_sid"
  by (simp add: name_defs user_def user_sid_def show_nat.simps)

lemma user_sid_desktop:
  "sessionIdFor False user ''desktop'' 1700000000000 = ''user_example_com-desktop-1700000000000''"
  by (simp add: name_defs user_def show_nat.simps)

lemma user_names:
  "cookieFile user = ''user_example_com_cookies.json''"
  "sessionFile user = ''user_example_com_session.json''"
  "cacheDirName user ''mobile'' = ''user_example_com_mobile''"
  "sanitize user = ''user_example_com''"
  by (simp_all add: name_defs user_def)

lemma suspended_run:
  "post_login (\<lambda>v. site_2fa) user ''secret'' ''mobile'' world0 =
     ((answer 401)\<lparr>r_success := Some False, r_sessionId := Some user_sid,
        r_message := Some ''Se requiere codigo 2FA movil. Usa el modal para ingresar el codigo.'',
        r_requires2FA := Some True\<rparr>,
      world0\<lparr>activeSessions :=
               [(user_sid, \<lparr>s_browser = Some user_sid, s_context = user_sid, s_page = user_sid,
                   s_email = user, s_password = Some ''secret'', s_cacheDir = None,
                   s_version = ''mobile'', s_createdAt = 1700000000000, s_quickLogin = False\<rparr>)],
             pending2FASessions :=
               [(user_sid, \<lparr>p_page = user_sid, p_email = user, p_version = ''mobile'',
                   p_timestamp = 1700000000000, p_resolve = None, p_reject = None\<rparr>)],
             w_open := [user_sid],
             w_trace := [Launched user_sid, SleptBetween 1000 1500, SleptBetween 500 800,
                         Clicked, Slept 3000, Slept 2000, Checked2FA True]\<rparr>)"
  by (simp add: machine_defs verify2FA_def site_2fa_def world0_def checkFor2FA_twofa_page
      user_sid_mobile Let_def user_sid_def user_not_empty)

lemma world_suspended_eq:
  "world_suspended =
     world0\<lparr>activeSessions :=
               [(user_sid, \<lparr>s_browser = Some user_sid, s_context = user_sid, s_page = user_sid,
                   s_email = user, s_password = Some ''secret'', s_cacheDir = None,
                   s_version = ''mobile'', s_createdAt = 1700000000000, s_quickLogin = False\<rparr>)],
             pending2FASessions :=
               [(user_sid, \<lparr>p_page = user_sid, p_email = user, p_version = ''mobile'',
                   p_timestamp = 1700000000000, p_resolve = None, p_reject = None\<rparr>)],
             w_open := [user_sid],
             w_trace := [Launched user_sid, SleptBetween 1000 1500, SleptBetween 500 800,
                         Clicked, Slept 3000, Slept 2000, Checked2FA True]\<rparr>"
  by (simp add: world_suspended_def suspended_run)

lemma submit_run:
  "post_submit_2fa site_accepts user_sid ''123456'' world_suspended =
     ((answer 200)\<lparr>r_success := Some False,
        r_message := Some ''Error procesando 2FA: resolve is not a function'',
        r_stillRequires2FA := Some True\<rparr>,
      world_suspended\<lparr>
        w_files := [cookieFile user \<mapsto>
                      CookieJson \<lparr>cd_email = user, cd_timestamp = 1700000000000,
                                  cd_cookies = [''c_user=100'', ''xs=abc'']\<rparr>,
                    sessionFile user \<mapsto>
                      SessionJson \<lparr>ss_email = user, ss_timestamp = 1700000000000,
                                   ss_page = some_state\<rparr>],
        pending2FASessions := [],
        w_trace := w_trace world_suspended @
                   [Slept 500, Slept 1000, Clicked, Slept 3000, Checked2FA False,
                    CheckedSuccess True]\<rparr>)"
  unfolding world_suspended_eq
  by (simp add: machine_defs site_accepts_def world0_def checkFor2FA_home_page
      checkLoginSuccess_home_page user_sid_not_empty user_names fun_upd_twist)

lemma cancel_run:
  "post_cancel_2fa site_accepts user_sid world_suspended =
     ((answer 500)\<lparr>r_success := Some False,
        r_message := Some ''Error del servidor: sessionData.reject is not a function''\<rparr>,
      world_suspended\<lparr>pending2FASessions := []\<rparr>)"
  unfolding world_suspended_eq
  by (simp add: machine_defs world0_def user_sid_not_empty)

lemma both_fail_run:
  "performFacebookLoginPersistent (\<lambda>v. site_no_email_field) user ''secret'' ''auto'' world0 =
     (Inl (ReferenceError ''mobileResult is not defined''),
      world0\<lparr>w_trace :=
        [Launched user_sid, SleptBetween 1000 1500, Closed user_sid,
         Launched ''user_example_com-desktop-1700000000000'', SleptBetween 1000 1500,
         Closed ''user_example_com-desktop-1700000000000'']\<rparr>)"
  by (simp add: machine_defs site_no_email_field_def world0_def user_sid_mobile user_sid_desktop
      Let_def user_sid_def)

lemma logged_in_run:
  "post_login (\<lambda>v. site_accepts) user ''secret'' ''mobile'' world0 =
     ((answer 200)\<lparr>r_success := Some True, r_sessionId := Some user_sid,
        r_message := Some (msg (login_success_result user_sid ''mobile''))\<rparr>,
      world0\<lparr>
        w_files := [cookieFile user \<mapsto>
                      CookieJson \<lparr>cd_email = user, cd_timestamp = 1700000000000,
                                  cd_cookies = [''c_user=100'', ''xs=abc'']\<rparr>,
                    sessionFile user \<mapsto>
                      SessionJson \<lparr>ss_email = user, ss_timestamp = 1700000000000,
                                   ss_page = some_state\<rparr>],
        w_cacheDirs := [''user_example_com_mobile''],
        activeSessions :=
               [(user_sid, \<lparr>s_browser = Some user_sid, s_context = user_sid, s_page = user_sid,
                   s_email = user, s_password = Some ''secret'', s_cacheDir = None,
                   s_version = ''mobile'', s_createdAt = 1700000000000, s_quickLogin = False\<rparr>)],
        w_open := [user_sid],
        w_trace := [Launched user_sid, SleptBetween 1000 1500, SleptBetween 500 800, Clicked,
                    Slept 3000, Slept 2000, Checked2FA False, Slept 1000, Checked2FA False,
                    Slept 2000, Checked2FA False, CheckedSuccess True]\<rparr>)"
  by (simp add: machine_defs verify2FA_def site_accepts_def world0_def checkFor2FA_home_page
      checkLoginSuccess_home_page user_sid_mobile Let_def user_not_empty user_names fun_upd_twist)

lemma delete_run:
  "delete_cookies user world_logged_in =
     ((answer 200)\<lparr>r_success := Some True,
        r_message := Some (''Datos eliminados para '' @ user @ '' (2 elementos)''),
        r_filesDeleted := Some 2\<rparr>,
      world_logged_in\<lparr>w_files := Map.empty\<rparr>)"
  unfolding world_logged_in_def logged_in_run
  by (simp add: machine_defs world0_def user_names show_nat.simps digit_def)

lemma john_names:
  "cookieFile ''john.doe@mail.com'' = ''john_doe_mail_com_cookies.json''"
  "cookieFile ''john@doe.mail.com'' = ''john_doe_mail_com_cookies.json''"
  "sessionFile ''john.doe@mail.com'' = ''john_doe_mail_com_session.json''"
  "cacheDirName ''john.doe@mail.com'' ''mobile'' = ''john_doe_mail_com_mobile''"
  "sessionIdFor True ''john.doe@mail.com'' ''mobile'' 1700000000000 =
     ''quick-john_doe_mail_com-mobile-1700000000000''"
  by (simp_all add: name_defs show_nat.simps)

lemma shared_name_run:
  "performQuickLogin (\<lambda>v. site_accepts) ''john.doe@mail.com'' ''mobile'' world_shared_name =
     (Inr (quick_success_result ''quick-john_doe_mail_com-mobile-1700000000000'' ''mobile''),
      world0\<lparr>
        w_files := [''john_doe_mail_com_cookies.json'' \<mapsto>
                      CookieJson \<lparr>cd_email = ''john.doe@mail.com'', cd_timestamp = 1700000000000,
                                  cd_cookies = [''c_user=100'', ''xs=abc'']\<rparr>,
                    ''john_doe_mail_com_session.json'' \<mapsto>
                      SessionJson \<lparr>ss_email = ''john.doe@mail.com'', ss_timestamp = 1700000000000,
                                   ss_page = some_state\<rparr>],
        w_cacheDirs := [''john_doe_mail_com_mobile''],
        activeSessions :=
          [(''quick-john_doe_mail_com-mobile-1700000000000'',
            \<lparr>s_browser = Some ''quick-john_doe_mail_com-mobile-1700000000000'',
             s_context = ''quick-john_doe_mail_com-mobile-1700000000000'',
             s_page = ''quick-john_doe_mail_com-mobile-1700000000000'',
             s_email = ''john.doe@mail.com'', s_password = None,
             s_cacheDir = Some ''john_doe_mail_com_mobile'', s_version = ''mobile'',
             s_createdAt = 1700000000000, s_quickLogin = True\<rparr>)],
        w_open := [''quick-john_doe_mail_com-mobile-1700000000000''],
        w_trace := [Launched ''quick-john_doe_mail_com-mobile-1700000000000'', Slept 2000,
                    Slept 1000, CheckedSuccess True]\<rparr>)"
  by (simp add: machine_defs world_shared_name_def site_accepts_def world0_def john_names
      checkLoginSuccess_home_page Let_def fun_upd_twist)

section \<open>The claims\<close>

text \<open>
  Claim C1. For every session suspended in awaiting-second-factor by a full login,
  submitSecondFactor with a code the site accepts returns Success, writes a fresh
  artifact bundle for the identity and removes the pending record, and a later
  submitSecondFactor for the same session id returns SessionNotFound.

  The code does not return Success. The theorem runs the route on the session that the
  full login of \<open>user\<close> has suspended, with a site that accepts the code: the cookie file
  and the session file are written and the pending entry is deleted, but the stored
  \<^verbatim>\<open>resolve\<close> is \<^verbatim>\<open>null\<close>, calling it throws, and the handler answers
  \<^verbatim>\<open>success: false, stillRequires2FA: true\<close>. The next call for the same id is answered
  with status 404. Lemma \<open>attempt_suspends\<close> shows that every suspension stores a
  \<^verbatim>\<open>null\<close> \<^verbatim>\<open>resolve\<close>, and lemma \<open>submit_with_null_resolve\<close> gives the same answer
  for every such entry.
\<close>

theorem submit_accepted_code_answers_failure:
  "map_of (pending2FASessions world_suspended) user_sid =
     Some \<lparr>p_page = user_sid, p_email = user, p_version = ''mobile'',
           p_timestamp = 1700000000000, p_resolve = None, p_reject = None\<rparr> \<and>
   checkFor2FA (page_2fa site_accepts 0) = Inr False \<and>
   checkLoginSuccess (page_success site_accepts) = Inr True \<and>
   fst (post_submit_2fa site_accepts user_sid ''123456'' world_suspended) =
     (answer 200)\<lparr>r_success := Some False,
        r_message := Some ''Error procesando 2FA: resolve is not a function'',
        r_stillRequires2FA := Some True\<rparr> \<and>
   w_files (snd (post_submit_2fa site_accepts user_sid ''123456'' world_suspended))
       (cookieFile user) =
     Some (CookieJson \<lparr>cd_email = user, cd_timestamp = 1700000000000,
                        cd_cookies = [''c_user=100'', ''xs=abc'']\<rparr>) \<and>
   w_files (snd (post_submit_2fa site_accepts user_sid ''123456'' world_suspended))
       (sessionFile user) =
     Some (SessionJson \<lparr>ss_email = user, ss_timestamp = 1700000000000,
                         ss_page = some_state\<rparr>) \<and>
   pending2FASessions (snd (post_submit_2fa site_accepts user_sid ''123456'' world_suspended)) =
     [] \<and>
   status (fst (post_submit_2fa site_accepts user_sid ''123456''
                  (snd (post_submit_2fa site_accepts user_sid ''123456'' world_suspended)))) =
     404"
proof -
  have again: "status (fst (post_submit_2fa site_accepts user_sid ''123456''
                  (snd (post_submit_2fa site_accepts user_sid ''123456'' world_suspended)))) =
     404"
    by (simp add: submit_run) (simp add: post_submit_2fa_def answer_def user_sid_not_empty)
  have site: "checkFor2FA (page_2fa site_accepts 0) = Inr False"
    "checkLoginSuccess (page_success site_accepts) = Inr True"
    by (simp_all add: site_accepts_def checkFor2FA_home_page checkLoginSuccess_home_page)
  show ?thesis
    using again site
    by (simp add: submit_run user_names) (simp add: world_suspended_eq)
qed

text \<open>
  Claim C2. For every identity that has no stored artifact bundle, quickLogin, for any
  dialect choice including auto, returns the error kind NoArtifacts and never invokes the
  browser-launch capability; an identity whose stored bundle is older than the 7-day
  retention window behaves identically.

  The code launches a browser for an identity that has stored nothing when another
  identity with the same derived file name has. \<^verbatim>\<open>loadCookies\<close> reads the file under
  the derived name and never compares the stored \<^verbatim>\<open>email\<close> with the identity asked
  for. In a world whose only file is the bundle of \<^verbatim>\<open>john@doe.mail.com\<close>, the quick
  login of \<^verbatim>\<open>john.doe@mail.com\<close> launches a browser on that bundle, returns a success
  result with a session id, and writes its own bundle over the other one. Lemma
  \<open>quick_login_without_cookie_file\<close> is what holds: with no file, or only a stale one,
  under the derived name, the \<^verbatim>\<open>NO_COOKIES\<close> result comes back and the state is
  unchanged.
\<close>

theorem quick_login_uses_another_identitys_bundle:
  "''john.doe@mail.com'' \<noteq> ''john@doe.mail.com'' \<and>
   w_files world_shared_name =
     [cookieFile ''john@doe.mail.com'' \<mapsto>
       CookieJson \<lparr>cd_email = ''john@doe.mail.com'',
                   cd_timestamp = 1700000000000 - 24 * 60 * 60 * 1000,
                   cd_cookies = [''c_user=200'']\<rparr>] \<and>
   w_trace world_shared_name = [] \<and>
   fst (performQuickLogin (\<lambda>v. site_accepts) ''john.doe@mail.com'' ''mobile'' world_shared_name) =
     Inr (quick_success_result ''quick-john_doe_mail_com-mobile-1700000000000'' ''mobile'') \<and>
   success (quick_success_result ''quick-john_doe_mail_com-mobile-1700000000000'' ''mobile'') \<and>
   err (quick_success_result ''quick-john_doe_mail_com-mobile-1700000000000'' ''mobile'') = None \<and>
   w_trace (snd (performQuickLogin (\<lambda>v. site_accepts) ''john.doe@mail.com'' ''mobile''
                   world_shared_name)) =
     [Launched ''quick-john_doe_mail_com-mobile-1700000000000'', Slept 2000, Slept 1000,
      CheckedSuccess True] \<and>
   w_open (snd (performQuickLogin (\<lambda>v. site_accepts) ''john.doe@mail.com'' ''mobile''
                  world_shared_name)) =
     [''quick-john_doe_mail_com-mobile-1700000000000''] \<and>
   w_files (snd (performQuickLogin (\<lambda>v. site_accepts) ''john.doe@mail.com'' ''mobile''
                   world_shared_name)) (cookieFile ''john@doe.mail.com'') =
     Some (CookieJson \<lparr>cd_email = ''john.doe@mail.com'', cd_timestamp = 1700000000000,
                        cd_cookies = [''c_user=100'', ''xs=abc'']\<rparr>)"
  by (simp add: shared_name_run)
     (simp add: world_shared_name_def world0_def quick_success_result_def john_names)

text \<open>
  Claim C3. For auto dialect choice in a full login, when the mobile attempt fails
  outright the desktop attempt is made before any failure is returned, and when both
  fail login returns a combined failure of kind BothVersionsFailed whose detail carries
  both failure messages.

  The desktop attempt is made, but no combined failure is returned. On a site where
  neither version shows the email field both browsers are launched and closed, and then
  the last \<^verbatim>\<open>return\<close> reads \<^verbatim>\<open>mobileResult\<close> outside the block that declares it:
  the function throws a \<^verbatim>\<open>ReferenceError\<close>, and the route answers with status 500
  and no attempts.
\<close>

theorem auto_login_both_fail_throws:
  "fst (performFacebookLoginPersistent (\<lambda>v. site_no_email_field) user ''secret'' ''auto'' world0) =
     Inl (ReferenceError ''mobileResult is not defined'') \<and>
   w_trace (snd (performFacebookLoginPersistent (\<lambda>v. site_no_email_field) user ''secret''
                   ''auto'' world0)) =
     [Launched user_sid, SleptBetween 1000 1500, Closed user_sid,
      Launched ''user_example_com-desktop-1700000000000'', SleptBetween 1000 1500,
      Closed ''user_example_com-desktop-1700000000000''] \<and>
   fst (post_login (\<lambda>v. site_no_email_field) user ''secret'' ''auto'' world0) =
     (answer 500)\<lparr>r_error := Some ''Error interno del servidor: mobileResult is not defined''\<rparr> \<and>
   r_attempts (fst (post_login (\<lambda>v. site_no_email_field) user ''secret'' ''auto'' world0)) = None"
  by (simp add: post_login_def both_fail_run user_not_empty) (simp add: answer_def world0_def)

text \<open>
  Claim C4. For every session in state awaiting-second-factor, cancelSecondFactor removes
  the pending record and forcibly closes the session: the browser is closed and the
  Session Record removed, so no browser process is leaked; for an id without pending
  record the session-close path reports NotFound and changes nothing.

  The code removes the pending record and then stops. On the session that the full login
  of \<open>user\<close> has suspended the stored \<^verbatim>\<open>reject\<close> is \<^verbatim>\<open>null\<close>; calling it throws before
  \<^verbatim>\<open>closeSession\<close> is reached, the route answers with status 500, and the session
  entry and the running browser are still there, with no close in the trace. Lemma
  \<open>cancel_with_null_reject\<close> gives the same outcome for every pending entry whose
  \<^verbatim>\<open>reject\<close> is \<^verbatim>\<open>null\<close>; lemma \<open>close_unknown_session\<close> is the answer of
  \<^verbatim>\<open>closeSession\<close> for an id that has no session.
\<close>

theorem cancel_leaves_browser_running:
  "map_of (pending2FASessions world_suspended) user_sid \<noteq> None \<and>
   fst (post_cancel_2fa site_accepts user_sid world_suspended) =
     (answer 500)\<lparr>r_success := Some False,
        r_message := Some ''Error del servidor: sessionData.reject is not a function''\<rparr> \<and>
   pending2FASessions (snd (post_cancel_2fa site_accepts user_sid world_suspended)) = [] \<and>
   map_of (activeSessions (snd (post_cancel_2fa site_accepts user_sid world_suspended))) user_sid =
     map_of (activeSessions world_suspended) user_sid \<and>
   map_of (activeSessions world_suspended) user_sid \<noteq> None \<and>
   user_sid \<in> set (w_open (snd (post_cancel_2fa site_accepts user_sid world_suspended))) \<and>
   Closed user_sid \<notin> set (w_trace (snd (post_cancel_2fa site_accepts user_sid world_suspended)))"
  by (simp add: cancel_run) (simp add: world_suspended_eq world0_def)

text \<open>
  Claim C5. For every page state, if requiresSecondFactor (\<^verbatim>\<open>checkFor2FA\<close>) returns true,
  by a visible input field, a visible marker phrase or a checkpoint-style URL fragment,
  then loginSucceeded (\<^verbatim>\<open>checkLoginSuccess\<close>) on the same page state returns false.

  The code answers true to both on a checkpoint page whose URL is
  \<^verbatim>\<open>https://www.facebook.com/checkpoint/?next\<close> and that shows none of the probed
  elements: \<^verbatim>\<open>checkFor2FA\<close> matches the URL fragment \<^verbatim>\<open>checkpoint\<close>, and
  \<^verbatim>\<open>checkLoginSuccess\<close>, whose own second-factor probe has a shorter selector list and
  no URL test, matches the success URL \<^verbatim>\<open>/?\<close>.
\<close>

theorem checkpoint_page_classified_both_ways:
  "checkFor2FA checkpoint_page = Inr True \<and> checkLoginSuccess checkpoint_page = Inr True"
  by (simp add: classifier_defs checkpoint_page_def)



text \<open>
  Claim C7. For every session suspended in awaiting-second-factor, if no resume call
  arrives within 30 minutes of suspension, the wait times out and tears the session down:
  the pending record is removed, the browser closed, the Session Record removed, and the
  login reports failure.

  Amended: the server arms no timer when it suspends a full login, so the passage of
  time alone, however long, removes neither the pending record nor the Session Record
  nor the browser: nothing times out. Only the older server kept beside it arms a timer
  of 30 minutes; when that timer fires with the pending record still there, it removes
  the pending record and rejects the parked login with a timeout error.

  The theorem: a full login in which the browser cooperates and some check of the ladder
  is positive, started with no timer armed, throws the tagged error and arms no timer,
  and after any wait the pending entry and the session entry of its session id are
  there, its browser is running and the trace has not grown. For the suspension of the
  older server, started with no timer armed, a wait removes the pending entry and
  settles the parked login with the timeout error exactly when it lasts 30 minutes or
  more.
\<close>

theorem suspension_has_no_timeout:
  assumes "cooperative e"
      and "requires2FA_at e 0 \<or> requires2FA_at e 1 \<or> requires2FA_at e 2"
      and "w_timers w = []"
  shows "fst (attemptLoginWithVersion e email (Some password) version False w) =
           Inl (Error (''2FA_REQUIRED:'' @ sessionIdFor False email version (w_clock w) @ '':'' @
                       version)) \<and>
         w_timers (snd (attemptLoginWithVersion e email (Some password) version False w)) = [] \<and>
         map_of (pending2FASessions
                  (advance_clock ms
                    (snd (attemptLoginWithVersion e email (Some password) version False w))))
                (sessionIdFor False email version (w_clock w)) \<noteq> None \<and>
         map_of (activeSessions
                  (advance_clock ms
                    (snd (attemptLoginWithVersion e email (Some password) version False w))))
                (sessionIdFor False email version (w_clock w)) \<noteq> None \<and>
         sessionIdFor False email version (w_clock w) \<in>
           set (w_open
                  (advance_clock ms
                    (snd (attemptLoginWithVersion e email (Some password) version False w)))) \<and>
         w_trace (advance_clock ms
                   (snd (attemptLoginWithVersion e email (Some password) version False w))) =
           w_trace (snd (attemptLoginWithVersion e email (Some password) version False w)) \<and>
         map_of (pending2FASessions (legacy_suspend sid email version w)) sid \<noteq> None \<and>
         map_of (pending2FASessions (advance_clock ms (legacy_suspend sid email version w))) sid =
           (if twoFA_timeout \<le> int ms then None
            else map_of (pending2FASessions (legacy_suspend sid email version w)) sid) \<and>
         w_settled (advance_clock ms (legacy_suspend sid email version w)) =
           (if twoFA_timeout \<le> int ms
            then w_settled w @ [(sid, Inl (Error ''Timeout esperando codigo 2FA (30 minutos)''))]
            else w_settled w)"
proof -
  have legacy:
    "map_of (pending2FASessions (legacy_suspend sid email version w)) sid \<noteq> None \<and>
     map_of (pending2FASessions (advance_clock ms (legacy_suspend sid email version w))) sid =
       (if twoFA_timeout \<le> int ms then None
        else map_of (pending2FASessions (legacy_suspend sid email version w)) sid) \<and>
     w_settled (advance_clock ms (legacy_suspend sid email version w)) =
       (if twoFA_timeout \<le> int ms
        then w_settled w @ [(sid, Inl (Error ''Timeout esperando codigo 2FA (30 minutos)''))]
        else w_settled w)"
    using assms(3)
    by (simp add: advance_clock_def legacy_suspend_def timer_fires_def Let_def update_conv'
        delete_conv')
  show ?thesis
    using legacy
    by (simp add: attempt_suspends [OF assms(1,2)] advance_without_timers assms(3) update_conv')
qed

theorem suspension_has_no_timeout_witness:
  "cooperative site_2fa \<and> requires2FA_at site_2fa 0 \<and> w_timers world0 = [] \<and>
   fst (attemptLoginWithVersion site_2fa user (Some ''secret'') ''mobile'' False world0) =
     Inl (Error (''2FA_REQUIRED:'' @ user_sid @ '':mobile'')) \<and>
   map_of (pending2FASessions
            (advance_clock 3600000
              (snd (attemptLoginWithVersion site_2fa user (Some ''secret'') ''mobile'' False
                      world0))))
          user_sid \<noteq> None \<and>
   map_of (activeSessions
            (advance_clock 3600000
              (snd (attemptLoginWithVersion site_2fa user (Some ''secret'') ''mobile'' False
                      world0))))
          user_sid \<noteq> None \<and>
   user_sid \<in>
     set (w_open
            (advance_clock 3600000
              (snd (attemptLoginWithVersion site_2fa user (Some ''secret'') ''mobile'' False
                      world0)))) \<and>
   map_of (pending2FASessions (advance_clock 3600000 (legacy_suspend user_sid user ''mobile'' world0)))
          user_sid = None"
proof -
  have coop: "cooperative site_2fa"
    by (simp add: cooperative_def site_2fa_def)
  have asked: "requires2FA_at site_2fa 0"
    by (simp add: requires2FA_at_def site_2fa_def checkFor2FA_twofa_page)
  have timers: "w_timers world0 = []" and clock: "w_clock world0 = 1700000000000"
    by (simp_all add: world0_def)
  show ?thesis
    using suspension_has_no_timeout
            [where e = site_2fa and w = world0 and email = user and password = "''secret''"
               and version = "''mobile''" and ms = 3600000 and sid = user_sid,
             OF coop disjI1 [OF asked] timers]
          coop asked timers
    by (simp add: clock user_sid_mobile twoFA_timeout_def)
qed

text \<open>
  The claim as stated fails on the session that the full login of \<open>user\<close> has suspended:
  31 minutes later, with no call in between, the pending entry, the session entry and
  the browser are still there and nothing was closed.
\<close>

theorem suspension_survives_31_minutes:
  "w_clock (advance_clock (31 * 60 * 1000) world_suspended) - w_clock world_suspended =
     31 * 60 * 1000 \<and>
   map_of (pending2FASessions (advance_clock (31 * 60 * 1000) world_suspended)) user_sid \<noteq> None \<and>
   map_of (activeSessions (advance_clock (31 * 60 * 1000) world_suspended)) user_sid \<noteq> None \<and>
   user_sid \<in> set (w_open (advance_clock (31 * 60 * 1000) world_suspended)) \<and>
   Closed user_sid \<notin> set (w_trace (advance_clock (31 * 60 * 1000) world_suspended))"
  by (simp add: world_suspended_eq world0_def advance_clock_def Let_def)

text \<open>
  Claim C8. The sanitizing transform that derives artifact file names and cache
  directory names from an account identity is reversible: it is injective, so two
  distinct identities get different derived names, and the identity can be recovered
  from the derived name.

  The code gives two distinct identities that differ only in where the \<^verbatim>\<open>@\<close> and a
  \<^verbatim>\<open>.\<close> stand the same cookie file, the same session file and, for one version, the
  same cache directory, and the way back that its listings take returns neither of
  them. Lemma \<open>sanitize_eq_iff\<close> tells which identities the replacement itself sends
  to one text.
\<close>

theorem derived_names_not_injective:
  "''john.doe@mail.com'' \<noteq> ''john@doe.mail.com'' \<and>
   sanitize ''john.doe@mail.com'' = sanitize ''john@doe.mail.com'' \<and>
   cookieFile ''john.doe@mail.com'' = cookieFile ''john@doe.mail.com'' \<and>
   sessionFile ''john.doe@mail.com'' = sessionFile ''john@doe.mail.com'' \<and>
   cacheDirName ''john.doe@mail.com'' ''mobile'' = cacheDirName ''john@doe.mail.com'' ''mobile'' \<and>
   restore_email (sanitize ''john.doe@mail.com'') = ''john@doe@mail@com'' \<and>
   restore_email (cacheDirName ''john.doe@mail.com'' ''mobile'') = ''john@doe@mail@com@mobile''"
  by (simp add: sanitize_def special_def cookieFile_def sessionFile_def cacheDirName_def
      restore_email_def)

text \<open>
  Claim C9. For every identity, deleteAccountData removes the cookie bundle file, the
  storage-snapshot file and the identity's browser cache directory and returns the exact
  count of removed items; in particular a cache directory created by a prior login is
  removed and counted.

  The code misses the cache directory. After the full mobile login of \<open>user\<close> the cache
  directory \<^verbatim>\<open>user_example_com_mobile\<close> and both files exist; the route looks for the
  directory \<^verbatim>\<open>user_example_com\<close>, without the version, removes the two files, answers
  \<^verbatim>\<open>filesDeleted: 2\<close> and leaves the cache directory in place.
\<close>

theorem delete_misses_cache_directory:
  "w_cacheDirs world_logged_in = [cacheDirName user ''mobile''] \<and>
   w_files world_logged_in (cookieFile user) \<noteq> None \<and>
   w_files world_logged_in (sessionFile user) \<noteq> None \<and>
   r_filesDeleted (fst (delete_cookies user world_logged_in)) = Some 2 \<and>
   w_files (snd (delete_cookies user world_logged_in)) (cookieFile user) = None \<and>
   w_files (snd (delete_cookies user world_logged_in)) (sessionFile user) = None \<and>
   w_cacheDirs (snd (delete_cookies user world_logged_in)) = [cacheDirName user ''mobile'']"
  by (simp add: delete_run) (simp add: world_logged_in_def logged_in_run user_names answer_def)

text \<open>
  Claim C10. requiresSecondFactor (\<^verbatim>\<open>checkFor2FA\<close>) is total at its boundary: for every
  page state it never propagates an exception; if an internal error escapes the probe
  loop, for example because reading the page URL or title fails, it returns false.

  For every page \<^verbatim>\<open>checkFor2FA\<close> returns an answer and never a thrown value; the answer
  is \<^verbatim>\<open>false\<close> whenever its \<^verbatim>\<open>try\<close> block throws, in particular when the URL or the
  title cannot be read; and a probe that throws inside the loop is skipped, so the loop
  alone throws nothing.
\<close>

theorem checkFor2FA_never_throws:
  "(\<exists>b. checkFor2FA p = Inr b) \<and>
   (\<forall>x. checkFor2FA_try p = Inl x \<longrightarrow> checkFor2FA p = Inr False) \<and>
   (\<forall>x. pg_url p = Inl x \<longrightarrow> checkFor2FA p = Inr False) \<and>
   (\<forall>x. pg_title p = Inl x \<longrightarrow> checkFor2FA p = Inr False)"
  by (auto simp: checkFor2FA_def checkFor2FA_try_def split: sum.splits)

theorem checkFor2FA_never_throws_witness:
  "pg_title broken_title_page = Inl (Error ''Execution context was destroyed'') \<and>
   checkFor2FA broken_title_page = Inr False"
proof -
  have broken: "pg_title broken_title_page = Inl (Error ''Execution context was destroyed'')"
    by (simp add: broken_title_page_def)
  with checkFor2FA_never_throws [of broken_title_page] show ?thesis
    by blast
qed

end
